theory Spec2Isabelle
  imports Main "HOL-Library.AList" "HOL-Library.Multiset"
begin

section \<open>Strings\<close>

text \<open>
  A Python \<open>str\<close> is a list of code points. A \<open>char\<close> stands here for one code
  point below 256, so \<open>length\<close> counts what \<open>len\<close> and the \<open>max_length\<close>
  constraint count. \<open>isspace\<close>, \<open>strip\<close> and \<open>lower\<close> are \<open>str.isspace\<close>,
  \<open>str.strip()\<close> and \<open>str.lower()\<close> on these code points.
\<close>

definition isspace :: "char \<Rightarrow> bool" where
  "isspace c =
     (let n = (of_char c :: nat)
      in (9 \<le> n \<and> n \<le> 13) \<or> (28 \<le> n \<and> n \<le> 32) \<or> n = 133 \<or> n = 160)"

definition strip :: "string \<Rightarrow> string" where
  "strip v = rev (dropWhile isspace (rev (dropWhile isspace v)))"

definition lower_char :: "char \<Rightarrow> char" where
  "lower_char c =
     (let n = (of_char c :: nat)
      in if (65 \<le> n \<and> n \<le> 90) \<or> (192 \<le> n \<and> n \<le> 222 \<and> n \<noteq> 215)
         then char_of (n + 32) else c)"

definition lower :: "string \<Rightarrow> string" where
  "lower v = map lower_char v"

section \<open>Enumerations (entities/enums/enums.py)\<close>

datatype PrioridadEnum = ALTA | MEDIA | BAJA

datatype EstadoEnum = PENDIENTE | EN_PROGRESO | COMPLETADA

text \<open>The value of a member, which is also what the JSON snapshot holds for it.\<close>

fun prioridad_value :: "PrioridadEnum \<Rightarrow> string" where
  "prioridad_value ALTA = ''alta''"
| "prioridad_value MEDIA = ''media''"
| "prioridad_value BAJA = ''baja''"

fun estado_value :: "EstadoEnum \<Rightarrow> string" where
  "estado_value PENDIENTE = ''pendiente''"
| "estado_value EN_PROGRESO = ''en progreso''"
| "estado_value COMPLETADA = ''completada''"

text \<open>
  \<open>PrioridadEnum(text)\<close> and \<open>EstadoEnum(text)\<close>: the lookup of a member by value.
  \<open>None\<close> is the \<open>ValueError\<close> that the enumeration raises for any other text.
\<close>

definition PrioridadEnum_of :: "string \<Rightarrow> PrioridadEnum option" where
  "PrioridadEnum_of v =
     (if v = ''alta'' then Some ALTA
      else if v = ''media'' then Some MEDIA
      else if v = ''baja'' then Some BAJA
      else None)"

definition EstadoEnum_of :: "string \<Rightarrow> EstadoEnum option" where
  "EstadoEnum_of v =
     (if v = ''pendiente'' then Some PENDIENTE
      else if v = ''en progreso'' then Some EN_PROGRESO
      else if v = ''completada'' then Some COMPLETADA
      else None)"

section \<open>The task record (entities/models/tarea.py)\<close>

text \<open>
  A \<open>datetime\<close> is naive (no \<open>tzinfo\<close>) or offset-aware. A naive one is a count of
  microseconds, its resolution; an aware one carries its UTC offset as well.
  \<open>datetime.now()\<close> is naive: the clock reading \<open>now\<close> is a count of microseconds, an
  argument of every operation that reads the clock. Comparing an aware with a naive
  datetime raises \<open>TypeError\<close>.
\<close>

type_synonym instante = int

datatype datetime = Naive instante | Aware instante int

text \<open>
  The due date of a record that exists is naive, since \<open>fecha_valida\<close> compared it with
  the clock before the record was built: the field holds the count of microseconds.
\<close>

record Tarea =
  tarea_id :: int
  titulo :: string
  descripcion :: string
  prioridad :: PrioridadEnum
  estado :: EstadoEnum
  fecha_vencimiento :: instante

text \<open>
  The keyword arguments of \<open>Tarea(...)\<close>, and a record object of the snapshot: each key is
  absent or holds a value of the type that \<open>guardar_tareas\<close> writes for it. An enumeration
  member is passed by its value. The due date is a text in the snapshot
  (\<open>string tarea_dict\<close>) and a datetime once converted (\<open>datetime tarea_dict\<close>).
\<close>

record 'f tarea_dict =
  d_id :: "int option"
  d_titulo :: "string option"
  d_descripcion :: "string option"
  d_prioridad :: "string option"
  d_estado :: "string option"
  d_fecha_vencimiento :: "'f option"

text \<open>One line of a \<open>ValidationError\<close>: the field and what is wrong with it.\<close>

datatype detalle =
    Missing string
  | String_too_long
  | Titulo_vacio
  | Enum_invalido string
  | Fecha_en_el_pasado

fun campo_id :: "int option \<Rightarrow> detalle + int" where
  "campo_id None = Inl (Missing ''id'')"
| "campo_id (Some v) = Inr v"

text \<open>
  \<open>titulo: str = Field(..., max_length=70)\<close>, then the validator \<open>titulo_no_vacio\<close>,
  which runs only on a value that passed the length constraint.
\<close>

fun campo_titulo :: "string option \<Rightarrow> detalle + string" where
  "campo_titulo None = Inl (Missing ''titulo'')"
| "campo_titulo (Some v) =
     (if length v > 70 then Inl String_too_long
      else if strip v = [] then Inl Titulo_vacio
      else Inr v)"

fun campo_descripcion :: "string option \<Rightarrow> detalle + string" where
  "campo_descripcion None = Inl (Missing ''descripcion'')"
| "campo_descripcion (Some v) = Inr v"

fun campo_prioridad :: "string option \<Rightarrow> detalle + PrioridadEnum" where
  "campo_prioridad None = Inl (Missing ''prioridad'')"
| "campo_prioridad (Some v) =
     (case PrioridadEnum_of v of None \<Rightarrow> Inl (Enum_invalido ''prioridad'') | Some p \<Rightarrow> Inr p)"

text \<open>\<open>estado: EstadoEnum = EstadoEnum.PENDIENTE\<close>: the only field with a default.\<close>

fun campo_estado :: "string option \<Rightarrow> detalle + EstadoEnum" where
  "campo_estado None = Inr PENDIENTE"
| "campo_estado (Some v) =
     (case EstadoEnum_of v of None \<Rightarrow> Inl (Enum_invalido ''estado'') | Some e \<Rightarrow> Inr e)"

text \<open>
  The validator \<open>fecha_valida\<close>: \<open>if v < datetime.now(): raise ValueError(...)\<close>. For an
  aware \<open>v\<close> the comparison itself raises \<open>TypeError\<close> (\<open>None\<close>), which is not a
  \<open>ValueError\<close>: pydantic does not turn it into a line of the \<open>ValidationError\<close>, it
  leaves \<open>Tarea(...)\<close> as it is.
\<close>

fun fecha_valida :: "instante \<Rightarrow> datetime \<Rightarrow> (detalle + instante) option" where
  "fecha_valida now (Naive v) = Some (if v < now then Inl Fecha_en_el_pasado else Inr v)"
| "fecha_valida now (Aware v off) = None"

fun campo_fecha_vencimiento :: "instante \<Rightarrow> datetime option \<Rightarrow> (detalle + instante) option" where
  "campo_fecha_vencimiento now None = Some (Inl (Missing ''fecha_vencimiento''))"
| "campo_fecha_vencimiento now (Some v) = fecha_valida now v"

text \<open>
  The exceptions that the service meets: pydantic's \<open>ValidationError\<close> with its lines;
  the \<open>TypeError\<close> of comparing an aware with a naive datetime; a \<open>ValueError\<close> of the
  standard library (an enumeration lookup or \<open>datetime.fromisoformat\<close>) with the text it
  rejected; any other, with its text.
\<close>

datatype excepcion =
    ValidationError "detalle list"
  | TypeError
  | ValueError string
  | Otra string

fun errores :: "detalle + 'a \<Rightarrow> detalle list" where
  "errores (Inl e) = [e]"
| "errores (Inr _) = []"

text \<open>
  \<open>Tarea(**kwargs)\<close>: every field is validated, and the \<open>ValidationError\<close> lists the
  fields that failed; the record is built when none did. An exception of a validator that
  is not a \<open>ValueError\<close> ends the validation at once, whatever the other fields hold.
\<close>

definition Tarea_init :: "instante \<Rightarrow> datetime tarea_dict \<Rightarrow> excepcion + Tarea" where
  "Tarea_init now kw =
     (case campo_fecha_vencimiento now (d_fecha_vencimiento kw) of
        None \<Rightarrow> Inl TypeError
      | Some v_fecha \<Rightarrow>
          (let v_id = campo_id (d_id kw);
               v_titulo = campo_titulo (d_titulo kw);
               v_descripcion = campo_descripcion (d_descripcion kw);
               v_prioridad = campo_prioridad (d_prioridad kw);
               v_estado = campo_estado (d_estado kw);
               es = errores v_id @ errores v_titulo @ errores v_descripcion
                    @ errores v_prioridad @ errores v_estado @ errores v_fecha
           in if es = []
              then Inr \<lparr>tarea_id = projr v_id, titulo = projr v_titulo,
                        descripcion = projr v_descripcion, prioridad = projr v_prioridad,
                        estado = projr v_estado, fecha_vencimiento = projr v_fecha\<rparr>
              else Inl (ValidationError es)))"

section \<open>Log manager and timer (infraestructure/services/log_service.py)\<close>

text \<open>
  The texts that the service logs, prints or raises. Where the source formats an exception
  into the text, the constructor carries what identifies that exception.
\<close>

datatype mensaje =
    Limite_maximo
  | Error_de_validacion "detalle list"
  | Error_al_agregar_tarea excepcion
  | Estado_no_valido string
  | Error_al_cargar_tarea "detalle list"
  | Error_al_cargar_tareas excepcion
  | Error_al_guardar_tareas string

text \<open>A snapshot document: the two top-level keys, each absent or of the type written.\<close>

record snapshot =
  doc_siguiente_id :: "int option"
  doc_tareas :: "string tarea_dict list option"

text \<open>
  What the process does to the outside, oldest first: a line appended to one of the three
  log files, a line printed, the snapshot file rewritten. Time stamps and measured
  durations are left out of the entries, and with them the timer's warning for an action
  slower than one second. Appending to a log file is taken to succeed, as the source
  does not guard it.
\<close>

datatype evento =
    Log_action string
  | Log_error mensaje
  | Log_data_operation string int string
  | Print mensaje
  | Escritura snapshot

text \<open>
  The file \<open>tareas.json\<close>: \<open>Ilegible e\<close> is a file that cannot be opened or parsed
  (\<open>open\<close> or \<open>json.load\<close> raises, with text \<open>e\<close>).
\<close>

datatype contenido = Ilegible string | Documento snapshot

section \<open>The service (infraestructure/services/tarea_service.py)\<close>

text \<open>
  The dictionary \<open>tareas\<close> keeps insertion order, which the listings return on equal keys:
  it is an association list, \<open>AList.update\<close> being \<open>self.tareas[k] = v\<close> (replace in
  place, or append) and \<open>map_of\<close> being \<open>self.tareas.get(k)\<close>. The state also holds the
  snapshot file (\<open>None\<close>: it does not exist), whether opening it for writing fails
  (\<open>Some e\<close>: \<open>open\<close> raises with text \<open>e\<close>), and the trace of outside effects.
\<close>

record TareaService =
  tareas :: "(int \<times> Tarea) list"
  siguiente_id :: int
  archivo :: "contenido option"
  disco_error :: "string option"
  traza :: "evento list"

definition MAX_TAREAS :: nat where
  "MAX_TAREAS = 50000"

definition emitir :: "evento \<Rightarrow> TareaService \<Rightarrow> TareaService" where
  "emitir e s = s\<lparr>traza := traza s @ [e]\<rparr>"

definition log_action :: "string \<Rightarrow> TareaService \<Rightarrow> TareaService" where
  "log_action action s = emitir (Log_action action) s"

definition log_error :: "mensaje \<Rightarrow> TareaService \<Rightarrow> TareaService" where
  "log_error error_message s = emitir (Log_error error_message) s"

definition log_data_operation :: "string \<Rightarrow> int \<Rightarrow> string \<Rightarrow> TareaService \<Rightarrow> TareaService" where
  "log_data_operation operation i info s = emitir (Log_data_operation operation i info) s"

text \<open>
  \<open>with Timer(action, log_manager): body\<close>. \<open>__exit__\<close> runs on every path out of the
  body, a raised exception included (the \<open>Inl\<close> results below), and logs the action.
\<close>

definition Timer :: "string \<Rightarrow> (TareaService \<Rightarrow> 'a \<times> TareaService) \<Rightarrow> TareaService \<Rightarrow> 'a \<times> TareaService" where
  "Timer action body s = (case body s of (r, s') \<Rightarrow> (r, log_action action s'))"

text \<open>
  \<open>{**tarea.dict(), "fecha_vencimiento": tarea.fecha_vencimiento.isoformat()}\<close>, as the
  JSON document holds it. \<open>isoformat\<close> is the library's \<open>datetime.isoformat\<close>.
\<close>

definition serializable :: "(instante \<Rightarrow> string) \<Rightarrow> Tarea \<Rightarrow> string tarea_dict" where
  "serializable isoformat tarea =
     \<lparr>d_id = Some (tarea_id tarea), d_titulo = Some (titulo tarea),
      d_descripcion = Some (descripcion tarea),
      d_prioridad = Some (prioridad_value (prioridad tarea)),
      d_estado = Some (estado_value (estado tarea)),
      d_fecha_vencimiento = Some (isoformat (fecha_vencimiento tarea))\<rparr>"

definition guardar_tareas :: "(instante \<Rightarrow> string) \<Rightarrow> TareaService \<Rightarrow> TareaService" where
  "guardar_tareas isoformat s =
     (let tareas_serializable = map (serializable isoformat) (map snd (tareas s));
          datos = \<lparr>doc_siguiente_id = Some (siguiente_id s),
                   doc_tareas = Some tareas_serializable\<rparr>
      in case disco_error s of
           None \<Rightarrow> emitir (Escritura datos) (s\<lparr>archivo := Some (Documento datos)\<rparr>)
         | Some e \<Rightarrow> emitir (Print (Error_al_guardar_tareas e))
                       (log_error (Error_al_guardar_tareas e) s))"

text \<open>
  Lines 55-56 of \<open>cargar_tareas\<close>: the due-date text is replaced by
  \<open>datetime.fromisoformat\<close> of it, outside the inner \<open>try\<close>. \<open>fromisoformat\<close> is the
  library's parser, \<open>None\<close> its \<open>ValueError\<close>; a text with an offset gives an aware
  datetime.
\<close>

definition convertir_fecha :: "(string \<Rightarrow> datetime option) \<Rightarrow> string tarea_dict \<Rightarrow> excepcion + datetime tarea_dict" where
  "convertir_fecha fromisoformat tarea_dict =
     (let kw = \<lparr>d_id = d_id tarea_dict, d_titulo = d_titulo tarea_dict,
                d_descripcion = d_descripcion tarea_dict,
                d_prioridad = d_prioridad tarea_dict, d_estado = d_estado tarea_dict,
                d_fecha_vencimiento = None\<rparr>
      in case d_fecha_vencimiento tarea_dict of
           None \<Rightarrow> Inr kw
         | Some txt \<Rightarrow>
             (case fromisoformat txt of
                None \<Rightarrow> Inl (ValueError txt)
              | Some v \<Rightarrow> Inr (kw\<lparr>d_fecha_vencimiento := Some v\<rparr>)))"

text \<open>
  Lines 58-62: the inner \<open>try\<close>, which catches the \<open>ValidationError\<close> only. Any other
  exception of \<open>Tarea(...)\<close> leaves it (\<open>Inl\<close>).
\<close>

definition cargar_tarea :: "instante \<Rightarrow> datetime tarea_dict \<Rightarrow> TareaService \<Rightarrow> excepcion + TareaService" where
  "cargar_tarea now kw s =
     (case Tarea_init now kw of
        Inr tarea \<Rightarrow> Inr (s\<lparr>tareas := AList.update (tarea_id tarea) tarea (tareas s)\<rparr>)
      | Inl (ValidationError e) \<Rightarrow> Inr (log_error (Error_al_cargar_tarea e) s)
      | Inl ex \<Rightarrow> Inl ex)"

text \<open>
  The loop over \<open>datos["tareas"]\<close>. \<open>Inl\<close> is the exception that leaves the loop, with
  the state reached so far.
\<close>

fun cargar_lista :: "(string \<Rightarrow> datetime option) \<Rightarrow> instante \<Rightarrow> string tarea_dict list \<Rightarrow> TareaService \<Rightarrow> (excepcion + unit) \<times> TareaService" where
  "cargar_lista fromisoformat now [] s = (Inr (), s)"
| "cargar_lista fromisoformat now (tarea_dict # rest) s =
     (case convertir_fecha fromisoformat tarea_dict of
        Inl ex \<Rightarrow> (Inl ex, s)
      | Inr kw \<Rightarrow>
          (case cargar_tarea now kw s of
             Inl ex \<Rightarrow> (Inl ex, s)
           | Inr s' \<Rightarrow> cargar_lista fromisoformat now rest s'))"

definition cargar_tareas :: "(string \<Rightarrow> datetime option) \<Rightarrow> instante \<Rightarrow> TareaService \<Rightarrow> TareaService" where
  "cargar_tareas fromisoformat now s =
     (case archivo s of
        None \<Rightarrow> s
      | Some (Ilegible e) \<Rightarrow>
          emitir (Print (Error_al_cargar_tareas (Otra e)))
            (log_error (Error_al_cargar_tareas (Otra e)) s)
      | Some (Documento datos) \<Rightarrow>
          (let s1 = (case doc_siguiente_id datos of
                       None \<Rightarrow> s
                     | Some n \<Rightarrow> if n \<noteq> 0 then s\<lparr>siguiente_id := n\<rparr> else s)
           in case doc_tareas datos of
                None \<Rightarrow> s1
              | Some ds \<Rightarrow>
                  if ds = [] then s1
                  else (case cargar_lista fromisoformat now ds s1 of
                          (Inr _, s2) \<Rightarrow> s2
                        | (Inl ex, s2) \<Rightarrow>
                            emitir (Print (Error_al_cargar_tareas ex))
                              (log_error (Error_al_cargar_tareas ex) s2))))"

text \<open>
  \<open>TareaService.__init__\<close>, in a process whose snapshot file is \<open>file\<close>: an empty
  dictionary, the counter at 1, then the load.
\<close>

definition TareaService_init :: "(string \<Rightarrow> datetime option) \<Rightarrow> instante \<Rightarrow> contenido option \<Rightarrow> string option \<Rightarrow> TareaService" where
  "TareaService_init fromisoformat now file disco =
     cargar_tareas fromisoformat now
       \<lparr>tareas = [], siguiente_id = 1, archivo = file, disco_error = disco, traza = []\<rparr>"

text \<open>
  \<open>agregar_tarea\<close>. Every failure is raised to the caller as a \<open>ValueError\<close> with its
  text (\<open>Inl\<close>). The first handler catches the \<open>ValidationError\<close>; the last one catches
  any other exception: the \<open>ValueError\<close> of the enumeration lookup
  \<open>PrioridadEnum(prioridad.lower())\<close>, the \<open>TypeError\<close> of an aware due date.
\<close>

definition agregar_tarea :: "(instante \<Rightarrow> string) \<Rightarrow> instante \<Rightarrow> string \<Rightarrow> string \<Rightarrow> string \<Rightarrow> datetime \<Rightarrow> TareaService \<Rightarrow> (mensaje + Tarea) \<times> TareaService" where
  "agregar_tarea isoformat now titulo' descripcion' prioridad' fecha s =
     Timer ''Agregar tarea'' (\<lambda>s.
       if length (tareas s) \<ge> MAX_TAREAS
       then (Inl Limite_maximo, log_error Limite_maximo s)
       else (case PrioridadEnum_of (lower prioridad') of
               None \<Rightarrow>
                 (Inl (Error_al_agregar_tarea (ValueError (lower prioridad'))),
                  log_error (Error_al_agregar_tarea (ValueError (lower prioridad'))) s)
             | Some p \<Rightarrow>
                 (case Tarea_init now
                         \<lparr>d_id = Some (siguiente_id s), d_titulo = Some titulo',
                          d_descripcion = Some descripcion',
                          d_prioridad = Some (prioridad_value p),
                          d_estado = Some (estado_value PENDIENTE),
                          d_fecha_vencimiento = Some fecha\<rparr> of
                    Inl (ValidationError e) \<Rightarrow>
                      (Inl (Error_de_validacion e), log_error (Error_de_validacion e) s)
                  | Inl ex \<Rightarrow>
                      (Inl (Error_al_agregar_tarea ex), log_error (Error_al_agregar_tarea ex) s)
                  | Inr nueva_tarea \<Rightarrow>
                      (let s1 = s\<lparr>tareas := AList.update (siguiente_id s) nueva_tarea (tareas s)\<rparr>;
                           s2 = log_data_operation ''Tarea agregada'' (siguiente_id s1) titulo' s1;
                           s3 = s2\<lparr>siguiente_id := siguiente_id s2 + 1\<rparr>;
                           s4 = guardar_tareas isoformat s3
                       in (Inr nueva_tarea, s4))))) s"

definition buscar_tarea_por_id :: "int \<Rightarrow> TareaService \<Rightarrow> Tarea option \<times> TareaService" where
  "buscar_tarea_por_id i s =
     Timer ''Buscar tarea por ID'' (\<lambda>s. (map_of (tareas s) i, s)) s"

text \<open>
  \<open>sorted(xs, key=..., reverse=...)\<close>: the sort is stable, and with \<open>reverse=True\<close>
  elements of equal key still keep their order.
\<close>

definition sorted_py :: "('a \<Rightarrow> 'k::linorder) \<Rightarrow> bool \<Rightarrow> 'a list \<Rightarrow> 'a list" where
  "sorted_py key reverse xs =
     (if reverse then rev (sort_key key (rev xs)) else sort_key key xs)"

fun prioridad_valor :: "PrioridadEnum \<Rightarrow> int" where
  "prioridad_valor BAJA = 1"
| "prioridad_valor MEDIA = 2"
| "prioridad_valor ALTA = 3"

definition listar_tareas_por_prioridad :: "bool \<Rightarrow> TareaService \<Rightarrow> Tarea list \<times> TareaService" where
  "listar_tareas_por_prioridad ascendente s =
     Timer ''Listar tareas por prioridad'' (\<lambda>s.
       (let tareas_lista = map snd (tareas s);
            tareas_ordenadas =
              (if ascendente
               then sorted_py (\<lambda>t. prioridad_valor (prioridad t)) False tareas_lista
               else sorted_py (\<lambda>t. prioridad_valor (prioridad t)) True tareas_lista)
        in (tareas_ordenadas, s))) s"

definition listar_tareas_por_vencimiento :: "TareaService \<Rightarrow> Tarea list \<times> TareaService" where
  "listar_tareas_por_vencimiento s =
     Timer ''Listar tareas por vencimiento'' (\<lambda>s.
       (let tareas_pendientes = filter (\<lambda>tarea. estado tarea \<noteq> COMPLETADA) (map snd (tareas s))
        in (sorted_py fecha_vencimiento False tareas_pendientes, s))) s"

text \<open>
  \<open>actualizar_estado_tarea\<close>: \<open>Inr None\<close> is the \<open>None\<close> returned for an unknown id,
  \<open>Inl\<close> the \<open>ValueError\<close> raised for an unknown status text. The stored object is
  changed in place, so the entry keeps its position.
\<close>

definition actualizar_estado_tarea :: "(instante \<Rightarrow> string) \<Rightarrow> int \<Rightarrow> string \<Rightarrow> TareaService \<Rightarrow> (mensaje + Tarea option) \<times> TareaService" where
  "actualizar_estado_tarea isoformat i nuevo_estado s =
     Timer ''Actualizar estado de tarea'' (\<lambda>s.
       case map_of (tareas s) i of
         None \<Rightarrow> (Inr None, s)
       | Some tarea \<Rightarrow>
           (case EstadoEnum_of (lower nuevo_estado) of
              None \<Rightarrow>
                (Inl (Estado_no_valido nuevo_estado), log_error (Estado_no_valido nuevo_estado) s)
            | Some estado_enum \<Rightarrow>
                (let tarea' = tarea\<lparr>estado := estado_enum\<rparr>;
                     s1 = s\<lparr>tareas := AList.update i tarea' (tareas s)\<rparr>;
                     s2 = log_data_operation ''Estado de tarea actualizado'' i nuevo_estado s1;
                     s3 = guardar_tareas isoformat s2
                 in (Inr (Some tarea'), s3)))) s"

section \<open>Observations on a state\<close>

text \<open>
  The save attempts in a trace. A call of \<open>guardar_tareas\<close> leaves exactly one such
  entry: the write of the snapshot, or the logged failure to write it.
\<close>

fun es_guardado :: "evento \<Rightarrow> bool" where
  "es_guardado (Escritura _) = True"
| "es_guardado (Log_error (Error_al_guardar_tareas _)) = True"
| "es_guardado _ = False"

definition guardados :: "evento list \<Rightarrow> nat" where
  "guardados tr = length (filter es_guardado tr)"

text \<open>The keyword arguments that \<open>agregar_tarea\<close> passes to \<open>Tarea(...)\<close>.\<close>

definition kw_nueva :: "TareaService \<Rightarrow> string \<Rightarrow> string \<Rightarrow> PrioridadEnum \<Rightarrow> datetime \<Rightarrow> datetime tarea_dict" where
  "kw_nueva s t d p f = \<lparr>d_id = Some (siguiente_id s), d_titulo = Some t,
      d_descripcion = Some d, d_prioridad = Some (prioridad_value p),
      d_estado = Some (estado_value PENDIENTE), d_fecha_vencimiento = Some f\<rparr>"


text \<open>
  A sequence of calls of \<open>agregar_tarea\<close>, each with its clock reading and arguments, as
  the menu loop issues them; \<open>exitos\<close> keeps the records that the successful calls return.
\<close>

fun exitos :: "('e + 'a) list \<Rightarrow> 'a list" where
  "exitos [] = []"
| "exitos (Inl _ # rs) = exitos rs"
| "exitos (Inr x # rs) = x # exitos rs"

fun agregar_varias :: "(instante \<Rightarrow> string) \<Rightarrow> (instante \<times> string \<times> string \<times> string \<times> datetime) list \<Rightarrow> TareaService \<Rightarrow> (mensaje + Tarea) list \<times> TareaService" where
  "agregar_varias isof [] s = ([], s)"
| "agregar_varias isof ((now, t, d, p, f) # cs) s =
     (case agregar_tarea isof now t d p f s of
        (r, s1) \<Rightarrow> (case agregar_varias isof cs s1 of (rs, s2) \<Rightarrow> (r # rs, s2)))"


text \<open>The keys are \<open>n\<close>, \<open>n + 1\<close>, ... up to the counter, in insertion order.\<close>

definition consecutivo :: "int \<Rightarrow> TareaService \<Rightarrow> bool" where
  "consecutivo n s \<longleftrightarrow> n \<le> siguiente_id s \<and> map fst (tareas s) = [n .. siguiente_id s - 1]"

text \<open>\<open>tarea.dict()\<close>: the keyword arguments that rebuild the record.\<close>

definition Tarea_dict :: "Tarea \<Rightarrow> datetime tarea_dict" where
  "Tarea_dict tarea =
     \<lparr>d_id = Some (tarea_id tarea), d_titulo = Some (titulo tarea),
      d_descripcion = Some (descripcion tarea),
      d_prioridad = Some (prioridad_value (prioridad tarea)),
      d_estado = Some (estado_value (estado tarea)),
      d_fecha_vencimiento = Some (Naive (fecha_vencimiento tarea))\<rparr>"

text \<open>
  What every stored record satisfies, since it was built by \<open>Tarea(...)\<close> and only its
  status changes afterwards: its title passes the two title checks; it is stored under its
  own id; and a dictionary has each key once.
\<close>

definition titulo_ok :: "Tarea \<Rightarrow> bool" where
  "titulo_ok t \<longleftrightarrow> length (titulo t) \<le> 70 \<and> strip (titulo t) \<noteq> []"

definition registro_ok :: "TareaService \<Rightarrow> bool" where
  "registro_ok s \<longleftrightarrow>
     distinct (map fst (tareas s))
     \<and> list_all (\<lambda>(k, t). tarea_id t = k \<and> titulo_ok t) (tareas s)"

text \<open>\<open>self.tareas[tarea.id] = tarea\<close>.\<close>

definition insertar :: "(int \<times> Tarea) list \<Rightarrow> Tarea \<Rightarrow> (int \<times> Tarea) list" where
  "insertar al t = AList.update (tarea_id t) t al"

text \<open>An entry as the load stores it at clock reading \<open>now\<close>.\<close>

definition entrada_ok :: "instante \<Rightarrow> int \<times> Tarea \<Rightarrow> bool" where
  "entrada_ok now e \<longleftrightarrow> tarea_id (snd e) = fst e \<and> titulo_ok (snd e) \<and> now \<le> fecha_vencimiento (snd e)"

section \<open>Example data\<close>

text \<open>
  A stand-in for the two library functions in the examples: it agrees with
  \<open>datetime.isoformat\<close> and \<open>datetime.fromisoformat\<close> on the dates the examples use,
  5, 20 and 30 seconds after the origin of the microsecond count, and on one text with an
  offset, two days later.
\<close>

definition isoformat_ej :: "instante \<Rightarrow> string" where
  "isoformat_ej v =
     (if v = 5000000 then ''1970-01-01T00:00:05''
      else if v = 20000000 then ''1970-01-01T00:00:20''
      else ''1970-01-01T00:00:30'')"

definition fromisoformat_ej :: "string \<Rightarrow> datetime option" where
  "fromisoformat_ej txt =
     (if txt = ''1970-01-01T00:00:05'' then Some (Naive 5000000)
      else if txt = ''1970-01-01T00:00:20'' then Some (Naive 20000000)
      else if txt = ''1970-01-01T00:00:30'' then Some (Naive 30000000)
      else if txt = ''1970-01-03T00:00:20+00:00'' then Some (Aware 172820000000 0)
      else None)"

definition tarea_ej :: "int \<Rightarrow> instante \<Rightarrow> Tarea" where
  "tarea_ej i f =
     \<lparr>tarea_id = i, titulo = ''Informe'', descripcion = ''Informe trimestral'',
      prioridad = ALTA, estado = PENDIENTE, fecha_vencimiento = f\<rparr>"

definition servicio_ej :: "(int \<times> Tarea) list \<Rightarrow> TareaService" where
  "servicio_ej al =
     \<lparr>tareas = al, siguiente_id = int (length al) + 1, archivo = None,
      disco_error = None, traza = []\<rparr>"

text \<open>A registry at its ceiling: records 1 to 50000.\<close>

definition entrada_ej :: "nat \<Rightarrow> int \<times> Tarea" where
  "entrada_ej n = (int n + 1, tarea_ej (int n + 1) 20000000)"

definition servicio_lleno :: TareaService where
  "servicio_lleno = servicio_ej (map entrada_ej [0..<50000])"

text \<open>
  Record objects of a snapshot file: one whose title is blank, one whose due-date text is
  not a date, one whose due-date text has an offset; and a snapshot document holding the
  given record objects.
\<close>

definition dict_sin_titulo :: "int \<Rightarrow> instante \<Rightarrow> string tarea_dict" where
  "dict_sin_titulo i f = (serializable isoformat_ej (tarea_ej i f))\<lparr>d_titulo := Some ''   ''\<rparr>"

definition dict_fecha_ilegible :: "int \<Rightarrow> instante \<Rightarrow> string tarea_dict" where
  "dict_fecha_ilegible i f =
     (serializable isoformat_ej (tarea_ej i f))\<lparr>d_fecha_vencimiento := Some ''pronto''\<rparr>"

definition dict_fecha_con_zona :: "int \<Rightarrow> instante \<Rightarrow> string tarea_dict" where
  "dict_fecha_con_zona i f =
     (serializable isoformat_ej (tarea_ej i f))
       \<lparr>d_fecha_vencimiento := Some ''1970-01-03T00:00:20+00:00''\<rparr>"

definition documento_ej :: "string tarea_dict list \<Rightarrow> contenido" where
  "documento_ej ds = Documento \<lparr>doc_siguiente_id = Some 4, doc_tareas = Some ds\<rparr>"

text \<open>
  A service that created one task at clock reading 0, due 5 seconds later; the creation
  saved the snapshot.
\<close>

definition servicio_vencido :: TareaService where
  "servicio_vencido =
     snd (agregar_tarea isoformat_ej 0 ''Informe'' ''Informe trimestral'' ''alta''
            (Naive 5000000) (TareaService_init fromisoformat_ej 0 None None))"

text \<open>The same process started again 10 seconds later, on the snapshot it saved.\<close>

definition servicio_reiniciado :: TareaService where
  "servicio_reiniciado =
     TareaService_init fromisoformat_ej 10000000 (archivo servicio_vencido) None"

text \<open>Three calls of \<open>agregar_tarea\<close>, the second with a blank title.\<close>

definition llamadas_ej :: "(instante \<times> string \<times> string \<times> string \<times> datetime) list" where
  "llamadas_ej =
     [(10000000, ''Informe'', ''Informe trimestral'', ''ALTA'', Naive 20000000),
      (10000000, ''   '', ''Informe trimestral'', ''alta'', Naive 20000000),
      (10000000, ''Informe'', ''Informe trimestral'', ''alta'', Naive 30000000)]"


section \<open>Basic facts\<close>

lemmas registros = Timer_def log_action_def log_error_def log_data_operation_def emitir_def

lemma guardar_tareas_campos [simp]:
  "tareas (guardar_tareas isof s) = tareas s"
  "siguiente_id (guardar_tareas isof s) = siguiente_id s"
  "disco_error (guardar_tareas isof s) = disco_error s"
  by (simp_all add: guardar_tareas_def emitir_def log_error_def Let_def split: option.splits)

lemma guardar_tareas_archivo:
  "archivo (guardar_tareas isof s) =
     (case disco_error s of
        None \<Rightarrow> Some (Documento \<lparr>doc_siguiente_id = Some (siguiente_id s),
                 doc_tareas = Some (map (serializable isof) (map snd (tareas s)))\<rparr>)
      | Some e \<Rightarrow> archivo s)"
  by (simp add: guardar_tareas_def emitir_def log_error_def Let_def split: option.splits)

lemma guardar_tareas_guardados:
  "guardados (traza (guardar_tareas isof s)) = Suc (guardados (traza s))"
  by (simp add: guardar_tareas_def emitir_def log_error_def Let_def guardados_def
      split: option.splits)

lemma log_campos [simp]:
  "tareas (log_action a s) = tareas s" "siguiente_id (log_action a s) = siguiente_id s"
  "archivo (log_action a s) = archivo s" "disco_error (log_action a s) = disco_error s"
  "tareas (log_error m s) = tareas s" "siguiente_id (log_error m s) = siguiente_id s"
  "archivo (log_error m s) = archivo s" "disco_error (log_error m s) = disco_error s"
  "tareas (log_data_operation a i b s) = tareas s"
  "siguiente_id (log_data_operation a i b s) = siguiente_id s"
  "archivo (log_data_operation a i b s) = archivo s"
  "disco_error (log_data_operation a i b s) = disco_error s"
  by (simp_all add: registros)

lemma log_guardados [simp]:
  "guardados (traza (log_action a s)) = guardados (traza s)"
  "guardados (traza (log_data_operation a i b s)) = guardados (traza s)"
  by (simp_all add: registros guardados_def)

lemma map_of_update_otro: "j \<noteq> i \<Longrightarrow> map_of (AList.update i v al) j = map_of al j"
  by (simp add: update_conv')

lemma update_claves: "map_of al i = Some v \<Longrightarrow> map fst (AList.update i v' al) = map fst al"
  by (simp add: update_keys) (metis domI dom_map_of_conv_image_fst set_map)

subsection \<open>Record validation\<close>

lemma errores_Nil: "errores r = [] \<longleftrightarrow> \<not> isl r"
  by (cases r) simp_all

lemma PrioridadEnum_of_value [simp]: "PrioridadEnum_of (prioridad_value p) = Some p"
  by (cases p) (simp_all add: PrioridadEnum_of_def)

lemma EstadoEnum_of_value [simp]: "EstadoEnum_of (estado_value e) = Some e"
  by (cases e) (simp_all add: EstadoEnum_of_def)


lemma Tarea_init_Aware:
  "d_fecha_vencimiento kw = Some (Aware v off) \<Longrightarrow> Tarea_init now kw = Inl TypeError"
  by (simp add: Tarea_init_def)

lemma Tarea_init_casos:
  "campo_fecha_vencimiento now (d_fecha_vencimiento kw) = Some r \<Longrightarrow>
   Tarea_init now kw =
     (if isl (campo_id (d_id kw)) \<or> isl (campo_titulo (d_titulo kw))
         \<or> isl (campo_descripcion (d_descripcion kw)) \<or> isl (campo_prioridad (d_prioridad kw))
         \<or> isl (campo_estado (d_estado kw)) \<or> isl r
      then Inl (ValidationError
             (errores (campo_id (d_id kw)) @ errores (campo_titulo (d_titulo kw))
              @ errores (campo_descripcion (d_descripcion kw))
              @ errores (campo_prioridad (d_prioridad kw))
              @ errores (campo_estado (d_estado kw)) @ errores r))
      else Inr \<lparr>tarea_id = projr (campo_id (d_id kw)),
                titulo = projr (campo_titulo (d_titulo kw)),
                descripcion = projr (campo_descripcion (d_descripcion kw)),
                prioridad = projr (campo_prioridad (d_prioridad kw)),
                estado = projr (campo_estado (d_estado kw)),
                fecha_vencimiento = projr r\<rparr>)"
  by (simp add: Tarea_init_def Let_def errores_Nil)

lemma campo_fecha_vencimiento_None:
  "campo_fecha_vencimiento now fo = None \<longleftrightarrow> (\<exists>v off. fo = Some (Aware v off))"
proof (cases fo)
  case None
  then show ?thesis by simp
next
  case (Some f)
  then show ?thesis by (cases f) simp_all
qed

lemma Tarea_init_TypeError:
  "Tarea_init now kw = Inl TypeError \<longleftrightarrow> (\<exists>v off. d_fecha_vencimiento kw = Some (Aware v off))"
proof (cases "campo_fecha_vencimiento now (d_fecha_vencimiento kw)")
  case None
  then show ?thesis using campo_fecha_vencimiento_None[of now "d_fecha_vencimiento kw"]
    by (auto simp add: Tarea_init_Aware)
next
  case (Some r)
  then show ?thesis using campo_fecha_vencimiento_None[of now "d_fecha_vencimiento kw"]
    by (simp add: Tarea_init_casos[OF Some])
qed

lemma Tarea_init_excepciones:
  "Tarea_init now kw = Inl ex \<Longrightarrow> ex = TypeError \<or> (\<exists>es. ex = ValidationError es)"
  by (cases "campo_fecha_vencimiento now (d_fecha_vencimiento kw)")
    (auto simp add: Tarea_init_def Let_def split: if_splits)

lemma Tarea_init_Inr:
  "Tarea_init now kw = Inr t \<Longrightarrow>
     campo_id (d_id kw) = Inr (tarea_id t) \<and> campo_titulo (d_titulo kw) = Inr (titulo t)
     \<and> campo_descripcion (d_descripcion kw) = Inr (descripcion t)
     \<and> campo_prioridad (d_prioridad kw) = Inr (prioridad t)
     \<and> campo_estado (d_estado kw) = Inr (estado t)
     \<and> campo_fecha_vencimiento now (d_fecha_vencimiento kw) = Some (Inr (fecha_vencimiento t))"
  by (cases "campo_fecha_vencimiento now (d_fecha_vencimiento kw)")
    (auto simp add: Tarea_init_def Let_def errores_Nil split: if_splits)

section \<open>Status update\<close>

text \<open>
  C9. For an id that the dictionary does not hold, \<open>actualizar_estado_tarea\<close> returns
  \<open>None\<close> and raises nothing, whatever the status text; the dictionary, the counter and
  the snapshot file stay as they were and no save is attempted. The only effect is the
  timer's line in the action log.
\<close>

theorem actualizar_estado_tarea_id_ausente:
  "map_of (tareas s) i = None \<Longrightarrow>
     fst (actualizar_estado_tarea isof i txt s) = Inr None
     \<and> tareas (snd (actualizar_estado_tarea isof i txt s)) = tareas s
     \<and> siguiente_id (snd (actualizar_estado_tarea isof i txt s)) = siguiente_id s
     \<and> archivo (snd (actualizar_estado_tarea isof i txt s)) = archivo s
     \<and> guardados (traza (snd (actualizar_estado_tarea isof i txt s))) = guardados (traza s)
     \<and> traza (snd (actualizar_estado_tarea isof i txt s))
         = traza s @ [Log_action ''Actualizar estado de tarea'']"
  by (simp add: actualizar_estado_tarea_def registros guardados_def)

theorem actualizar_estado_tarea_id_ausente_witness:
  "map_of (tareas (servicio_ej [(1, tarea_ej 1 20000000)])) 2 = None
   \<and> fst (actualizar_estado_tarea isoformat_ej 2 ''no es un estado''
            (servicio_ej [(1, tarea_ej 1 20000000)])) = Inr None
   \<and> tareas (snd (actualizar_estado_tarea isoformat_ej 2 ''no es un estado''
            (servicio_ej [(1, tarea_ej 1 20000000)]))) = [(1, tarea_ej 1 20000000)]"
proof -
  have h: "map_of (tareas (servicio_ej [(1, tarea_ej 1 20000000)])) 2 = None"
    by (simp add: servicio_ej_def)
  from actualizar_estado_tarea_id_ausente [OF h, of isoformat_ej "''no es un estado''"] h
  show ?thesis by (simp add: servicio_ej_def)
qed

lemma actualizar_estado_tarea_exito:
  "map_of (tareas s) i = Some tarea \<Longrightarrow> EstadoEnum_of (lower txt) = Some e \<Longrightarrow>
   actualizar_estado_tarea isof i txt s =
     (Inr (Some (tarea\<lparr>estado := e\<rparr>)),
      log_action ''Actualizar estado de tarea''
        (guardar_tareas isof
          (log_data_operation ''Estado de tarea actualizado'' i txt
            (s\<lparr>tareas := AList.update i (tarea\<lparr>estado := e\<rparr>) (tareas s)\<rparr>))))"
  by (simp add: actualizar_estado_tarea_def Timer_def Let_def)

lemma lower_Completada: "lower ''Completada'' = ''completada''"
  by code_simp

text \<open>
  C8. When the dictionary holds a record under the id and the status text is, up to case,
  one of the three values, \<open>actualizar_estado_tarea\<close> returns that record with its status
  replaced and stores it under the same id: id, title, description, priority and due
  date are those of the old record. Every other id maps to what it mapped to, the keys and
  their order are unchanged, the counter is unchanged, and exactly one save is attempted,
  which, when the file can be written, leaves the snapshot of the whole new state.
\<close>

theorem actualizar_estado_tarea_marco:
  assumes "map_of (tareas s) i = Some tarea" and "EstadoEnum_of (lower txt) = Some e"
  shows "fst (actualizar_estado_tarea isof i txt s) = Inr (Some (tarea\<lparr>estado := e\<rparr>))
     \<and> map_of (tareas (snd (actualizar_estado_tarea isof i txt s))) i = Some (tarea\<lparr>estado := e\<rparr>)
     \<and> (\<forall>j. j \<noteq> i \<longrightarrow> map_of (tareas (snd (actualizar_estado_tarea isof i txt s))) j
                        = map_of (tareas s) j)
     \<and> map fst (tareas (snd (actualizar_estado_tarea isof i txt s))) = map fst (tareas s)
     \<and> siguiente_id (snd (actualizar_estado_tarea isof i txt s)) = siguiente_id s
     \<and> guardados (traza (snd (actualizar_estado_tarea isof i txt s))) = Suc (guardados (traza s))
     \<and> (disco_error s = None \<longrightarrow>
          archivo (snd (actualizar_estado_tarea isof i txt s)) =
            Some (Documento \<lparr>doc_siguiente_id = Some (siguiente_id s),
              doc_tareas = Some (map (serializable isof)
                (map snd (tareas (snd (actualizar_estado_tarea isof i txt s)))))\<rparr>))"
  unfolding actualizar_estado_tarea_exito [OF assms]
  using assms(1)
  by (simp add: guardar_tareas_guardados guardar_tareas_archivo update_conv' update_claves)

theorem actualizar_estado_tarea_marco_witness:
  "map_of (tareas (servicio_ej [(1, tarea_ej 1 20000000), (2, tarea_ej 2 30000000)])) 2
     = Some (tarea_ej 2 30000000)
   \<and> EstadoEnum_of (lower ''Completada'') = Some COMPLETADA
   \<and> tareas (snd (actualizar_estado_tarea isoformat_ej 2 ''Completada''
        (servicio_ej [(1, tarea_ej 1 20000000), (2, tarea_ej 2 30000000)])))
     = [(1, tarea_ej 1 20000000), (2, (tarea_ej 2 30000000)\<lparr>estado := COMPLETADA\<rparr>)]
   \<and> guardados (traza (snd (actualizar_estado_tarea isoformat_ej 2 ''Completada''
        (servicio_ej [(1, tarea_ej 1 20000000), (2, tarea_ej 2 30000000)])))) = 1"
proof -
  have h1: "map_of (tareas (servicio_ej [(1, tarea_ej 1 20000000), (2, tarea_ej 2 30000000)])) 2
     = Some (tarea_ej 2 30000000)"
    by (simp add: servicio_ej_def)
  have h2: "EstadoEnum_of (lower ''Completada'') = Some COMPLETADA"
    by (simp add: lower_Completada EstadoEnum_of_def)
  have t: "tareas (snd (actualizar_estado_tarea isoformat_ej 2 ''Completada''
        (servicio_ej [(1, tarea_ej 1 20000000), (2, tarea_ej 2 30000000)])))
     = [(1, tarea_ej 1 20000000), (2, (tarea_ej 2 30000000)\<lparr>estado := COMPLETADA\<rparr>)]"
    unfolding actualizar_estado_tarea_exito [OF h1 h2] by (simp add: servicio_ej_def)
  from actualizar_estado_tarea_marco [OF h1 h2, of isoformat_ej] h1 h2 t
  show ?thesis by (simp add: servicio_ej_def guardados_def)
qed

section \<open>Creation\<close>

text \<open>
  C4. When the dictionary already holds 50000 records, the configured maximum,
  \<open>agregar_tarea\<close> fails with the capacity error: no record is inserted, the counter is
  not advanced, the snapshot file is not touched and no save is attempted.
\<close>

theorem agregar_tarea_limite:
  "length (tareas s) = 50000 \<Longrightarrow>
     fst (agregar_tarea isof now t d p f s) = Inl Limite_maximo
     \<and> tareas (snd (agregar_tarea isof now t d p f s)) = tareas s
     \<and> siguiente_id (snd (agregar_tarea isof now t d p f s)) = siguiente_id s
     \<and> archivo (snd (agregar_tarea isof now t d p f s)) = archivo s
     \<and> guardados (traza (snd (agregar_tarea isof now t d p f s))) = guardados (traza s)"
  by (simp add: agregar_tarea_def registros guardados_def MAX_TAREAS_def)

theorem agregar_tarea_limite_witness:
  "length (tareas servicio_lleno) = 50000
   \<and> fst (agregar_tarea isoformat_ej 10000000 ''Informe'' ''Informe trimestral'' ''alta''
            (Naive 20000000) servicio_lleno) = Inl Limite_maximo
   \<and> siguiente_id (snd (agregar_tarea isoformat_ej 10000000 ''Informe'' ''Informe trimestral''
            ''alta'' (Naive 20000000) servicio_lleno)) = 50001
   \<and> length (tareas (snd (agregar_tarea isoformat_ej 10000000 ''Informe'' ''Informe trimestral''
            ''alta'' (Naive 20000000) servicio_lleno))) = 50000"
proof -
  have h: "length (tareas servicio_lleno) = 50000"
    by (simp add: servicio_lleno_def servicio_ej_def)
  have n: "siguiente_id servicio_lleno = 50001"
    by (simp add: servicio_lleno_def servicio_ej_def)
  from agregar_tarea_limite [OF h, of isoformat_ej 10000000 "''Informe''"
      "''Informe trimestral''" "''alta''" "Naive 20000000"] h n
  show ?thesis by simp
qed

lemma agregar_tarea_casos:
  "agregar_tarea isof now t d p f s =
     (if length (tareas s) \<ge> MAX_TAREAS
      then (Inl Limite_maximo, log_action ''Agregar tarea'' (log_error Limite_maximo s))
      else case PrioridadEnum_of (lower p) of
             None \<Rightarrow> (Inl (Error_al_agregar_tarea (ValueError (lower p))),
                       log_action ''Agregar tarea''
                         (log_error (Error_al_agregar_tarea (ValueError (lower p))) s))
           | Some pr \<Rightarrow>
               (case Tarea_init now (kw_nueva s t d pr f) of
                  Inl (ValidationError e) \<Rightarrow>
                    (Inl (Error_de_validacion e),
                     log_action ''Agregar tarea'' (log_error (Error_de_validacion e) s))
                | Inl ex \<Rightarrow>
                    (Inl (Error_al_agregar_tarea ex),
                     log_action ''Agregar tarea'' (log_error (Error_al_agregar_tarea ex) s))
                | Inr nueva \<Rightarrow>
                    (Inr nueva,
                     log_action ''Agregar tarea''
                       (guardar_tareas isof
                         ((log_data_operation ''Tarea agregada'' (siguiente_id s) t
                            (s\<lparr>tareas := AList.update (siguiente_id s) nueva (tareas s)\<rparr>))
                          \<lparr>siguiente_id := siguiente_id s + 1\<rparr>)))))"
  by (simp add: agregar_tarea_def Timer_def Let_def kw_nueva_def
      split: option.splits sum.splits excepcion.splits)

lemma log_error_guardados_otros [simp]:
  "guardados (traza (log_error Limite_maximo s)) = guardados (traza s)"
  "guardados (traza (log_error (Error_al_agregar_tarea x) s)) = guardados (traza s)"
  "guardados (traza (log_error (Error_de_validacion e) s)) = guardados (traza s)"
  by (simp_all add: registros guardados_def)

lemma agregar_tarea_falla:
  "fst (agregar_tarea isof now t d p f s) = Inl m \<Longrightarrow>
     tareas (snd (agregar_tarea isof now t d p f s)) = tareas s
     \<and> siguiente_id (snd (agregar_tarea isof now t d p f s)) = siguiente_id s
     \<and> archivo (snd (agregar_tarea isof now t d p f s)) = archivo s
     \<and> guardados (traza (snd (agregar_tarea isof now t d p f s))) = guardados (traza s)"
  unfolding agregar_tarea_casos
  by (simp split: if_splits option.splits sum.splits excepcion.splits)

lemma Tarea_init_id: "Tarea_init now kw = Inr t \<Longrightarrow> d_id kw = Some (tarea_id t)"
  by (drule Tarea_init_Inr) (cases "d_id kw"; simp)

lemma agregar_tarea_Inr:
  "fst (agregar_tarea isof now t d p f s) = Inr nueva \<Longrightarrow>
     tarea_id nueva = siguiente_id s
     \<and> tareas (snd (agregar_tarea isof now t d p f s)) = AList.update (siguiente_id s) nueva (tareas s)
     \<and> siguiente_id (snd (agregar_tarea isof now t d p f s)) = siguiente_id s + 1"
  unfolding agregar_tarea_casos
  by (auto simp add: kw_nueva_def split: if_splits option.splits sum.splits excepcion.splits
      dest: Tarea_init_id)

lemma agregar_tarea_fst:
  "length (tareas s) < MAX_TAREAS \<Longrightarrow>
   fst (agregar_tarea isof now t d p f s) =
     (case PrioridadEnum_of (lower p) of
        None \<Rightarrow> Inl (Error_al_agregar_tarea (ValueError (lower p)))
      | Some pr \<Rightarrow>
          (case Tarea_init now (kw_nueva s t d pr f) of
             Inl (ValidationError e) \<Rightarrow> Inl (Error_de_validacion e)
           | Inl ex \<Rightarrow> Inl (Error_al_agregar_tarea ex)
           | Inr nueva \<Rightarrow> Inr nueva))"
  unfolding agregar_tarea_casos by (simp split: option.splits sum.splits excepcion.splits)

lemma Tarea_init_kw_nueva_Naive:
  "Tarea_init now (kw_nueva s t d pr (Naive f)) =
     (if 70 < length t \<or> strip t = [] \<or> f < now
      then Inl (ValidationError
             (errores (campo_titulo (Some t))
              @ errores (if f < now then Inl Fecha_en_el_pasado else Inr f)))
      else Inr \<lparr>tarea_id = siguiente_id s, titulo = t, descripcion = d, prioridad = pr,
                estado = PENDIENTE, fecha_vencimiento = f\<rparr>)"
  by (simp add: Tarea_init_def kw_nueva_def Let_def errores_Nil EstadoEnum_of_def)



lemma strip_blancos: "strip ''   '' = []"
  by code_simp

lemma strip_Informe: "strip ''Informe'' = ''Informe''"
  by code_simp

lemma lower_alta: "lower ''alta'' = ''alta''"
  by code_simp





lemma agregar_varias_Cons:
  "agregar_varias isof ((now, t, d, p, f) # cs) s =
     (fst (agregar_tarea isof now t d p f s)
        # fst (agregar_varias isof cs (snd (agregar_tarea isof now t d p f s))),
      snd (agregar_varias isof cs (snd (agregar_tarea isof now t d p f s))))"
  by (simp split: prod.splits)

lemma upto_snoc: "(a::int) \<le> n \<Longrightarrow> [a .. n] = [a .. n - 1] @ [n]"
  using upto_rec2[of a n] by simp

lemma agregar_tarea_consecutivo:
  assumes "consecutivo n s"
  shows "consecutivo n (snd (agregar_tarea isof now t d p f s))"
proof (cases "fst (agregar_tarea isof now t d p f s)")
  case (Inl m)
  from agregar_tarea_falla[OF this] assms show ?thesis by (simp add: consecutivo_def)
next
  case (Inr nueva)
  from agregar_tarea_Inr[OF this] assms show ?thesis
    by (simp add: consecutivo_def update_keys upto_snoc)
qed

lemma agregar_tarea_siguiente_mono:
  "siguiente_id s \<le> siguiente_id (snd (agregar_tarea isof now t d p f s))"
proof (cases "fst (agregar_tarea isof now t d p f s)")
  case (Inl m)
  from agregar_tarea_falla[OF this] show ?thesis by simp
next
  case (Inr nueva)
  from agregar_tarea_Inr[OF this] show ?thesis by simp
qed

lemma agregar_varias_siguiente_mono:
  "siguiente_id s \<le> siguiente_id (snd (agregar_varias isof cs s))"
proof (induction cs arbitrary: s)
  case Nil
  then show ?case by simp
next
  case (Cons c cs)
  obtain now t d p f where c: "c = (now, t, d, p, f)" by (cases c) auto
  have "siguiente_id s \<le> siguiente_id (snd (agregar_tarea isof now t d p f s))"
    by (rule agregar_tarea_siguiente_mono)
  also have "\<dots> \<le> siguiente_id (snd (agregar_varias isof cs (snd (agregar_tarea isof now t d p f s))))"
    by (rule Cons.IH)
  finally show ?case unfolding c agregar_varias_Cons by simp
qed

lemma upto_Cons: "(a::int) \<le> b \<Longrightarrow> [a .. b] = a # [a + 1 .. b]"
  by (simp add: upto_rec1)

lemma agregar_varias_ids:
  "consecutivo n s \<Longrightarrow>
     consecutivo n (snd (agregar_varias isof cs s))
     \<and> map tarea_id (exitos (fst (agregar_varias isof cs s)))
         = [siguiente_id s .. siguiente_id (snd (agregar_varias isof cs s)) - 1]"
proof (induction cs arbitrary: s)
  case Nil
  then show ?case by simp
next
  case (Cons c cs)
  obtain now t d p f where c: "c = (now, t, d, p, f)" by (cases c) auto
  let ?r = "agregar_tarea isof now t d p f s"
  let ?rest = "agregar_varias isof cs (snd ?r)"
  have c1: "consecutivo n (snd ?r)" using Cons.prems by (rule agregar_tarea_consecutivo)
  note ih = Cons.IH[OF c1]
  have eq: "agregar_varias isof (c # cs) s = (fst ?r # fst ?rest, snd ?rest)"
    unfolding c by (rule agregar_varias_Cons)
  show ?case
  proof (cases "fst ?r")
    case (Inl m)
    from agregar_tarea_falla[OF this] ih Inl show ?thesis
      unfolding eq by simp
  next
    case (Inr nueva)
    have m: "siguiente_id (snd ?r) \<le> siguiente_id (snd ?rest)"
      by (rule agregar_varias_siguiente_mono)
    from agregar_tarea_Inr[OF Inr] ih Inr m show ?thesis
      unfolding eq by (simp add: upto_Cons)
  qed
qed

lemma servicio_nuevo:
  "TareaService_init fromiso now None disco
     = \<lparr>tareas = [], siguiente_id = 1, archivo = None, disco_error = disco, traza = []\<rparr>"
  by (simp add: TareaService_init_def cargar_tareas_def)

lemma upto_desde: "[a .. a + int n - 1] = map (\<lambda>k. a + int k) [0..<n]"
proof (induction n)
  case 0
  then show ?case by simp
next
  case (Suc n)
  have "[a .. a + int (Suc n) - 1] = [a .. a + int n - 1] @ [a + int n]"
    using upto_snoc[of a "a + int n"] by simp
  with Suc show ?case by simp
qed

text \<open>
  C5 (amended). From a registry with an empty dictionary, whatever calls of \<open>agregar_tarea\<close>
  follow, the ids of the records returned by the successful ones are the counter's value
  at the start and its successors, in order: strictly increasing and distinct; they are
  the keys of the dictionary, in insertion order, and the counter has advanced by their
  number.
  Failed calls in between use up no id. The registry that \<open>__init__\<close> builds when there is
  no snapshot file has an empty dictionary and the counter 1, so there the ids are
  1, 2, 3, ...
\<close>

theorem agregar_tarea_ids_consecutivos:
  assumes "tareas s = []"
  shows "map tarea_id (exitos (fst (agregar_varias isof cs s)))
           = map (\<lambda>k. siguiente_id s + int k)
               [0..<length (exitos (fst (agregar_varias isof cs s)))]
    \<and> map fst (tareas (snd (agregar_varias isof cs s)))
           = map tarea_id (exitos (fst (agregar_varias isof cs s)))
    \<and> sorted_wrt (<) (map tarea_id (exitos (fst (agregar_varias isof cs s))))
    \<and> distinct (map tarea_id (exitos (fst (agregar_varias isof cs s))))
    \<and> siguiente_id (snd (agregar_varias isof cs s))
           = siguiente_id s + int (length (exitos (fst (agregar_varias isof cs s))))
    \<and> tareas (TareaService_init fromiso now None disco) = []
    \<and> siguiente_id (TareaService_init fromiso now None disco) = 1"
proof -
  let ?r = "agregar_varias isof cs s"
  let ?ids = "map tarea_id (exitos (fst ?r))"
  let ?n = "siguiente_id s"
  have c0: "consecutivo ?n s" using assms by (simp add: consecutivo_def)
  from agregar_varias_ids[OF c0, of isof cs]
  have c: "consecutivo ?n (snd ?r)" and ids: "?ids = [?n .. siguiente_id (snd ?r) - 1]"
    by simp_all
  from c have ge: "?n \<le> siguiente_id (snd ?r)" and keys: "map fst (tareas (snd ?r)) = ?ids"
    by (simp_all add: consecutivo_def ids)
  have "length ?ids = nat (siguiente_id (snd ?r) - ?n)"
    unfolding ids by simp
  with ge have n: "siguiente_id (snd ?r) = ?n + int (length (exitos (fst ?r)))"
    by simp
  have "?ids = [?n .. ?n + int (length (exitos (fst ?r))) - 1]"
    using ids n by simp
  then have a: "?ids = map (\<lambda>k. ?n + int k) [0..<length (exitos (fst ?r))]"
    by (simp only: upto_desde)
  have s: "sorted_wrt (<) ?ids" unfolding ids by simp
  then have d: "distinct ?ids" using strict_sorted_iff by blast
  from a keys s d n show ?thesis by (simp add: servicio_nuevo)
qed


section \<open>Listings\<close>

lemma sorted_py_mset [simp]: "mset (sorted_py key r xs) = mset xs"
  by (simp add: sorted_py_def)

lemma sorted_py_asc: "sorted (map key (sorted_py key False xs))"
  by (simp add: sorted_py_def)

lemma sorted_py_desc: "sorted (rev (map key (sorted_py key True xs)))"
  by (simp add: sorted_py_def rev_map)

lemma listar_prioridad_fst:
  "fst (listar_tareas_por_prioridad asc s)
     = sorted_py (\<lambda>t. prioridad_valor (prioridad t)) (\<not> asc) (map snd (tareas s))"
  by (simp add: listar_tareas_por_prioridad_def Timer_def Let_def)

lemma listar_prioridad_snd:
  "snd (listar_tareas_por_prioridad asc s) = log_action ''Listar tareas por prioridad'' s"
  by (simp add: listar_tareas_por_prioridad_def Timer_def Let_def)

text \<open>
  C6. \<open>listar_tareas_por_prioridad\<close> returns every stored record, completed ones included
  (the same multiset as the dictionary's values), ordered by the rank baja = 1, media = 2,
  alta = 3: ranks ascending when \<open>ascendente\<close>, descending otherwise. Records of priorities
  baja, alta, media come back as baja, media, alta, and as alta, media, baja. The
  dictionary and the counter are not changed.
\<close>

theorem listar_tareas_por_prioridad_ordenada:
  "mset (fst (listar_tareas_por_prioridad asc s)) = mset (map snd (tareas s))
   \<and> sorted (map (\<lambda>t. prioridad_valor (prioridad t)) (fst (listar_tareas_por_prioridad True s)))
   \<and> sorted (rev (map (\<lambda>t. prioridad_valor (prioridad t)) (fst (listar_tareas_por_prioridad False s))))
   \<and> prioridad_valor BAJA = 1 \<and> prioridad_valor MEDIA = 2 \<and> prioridad_valor ALTA = 3
   \<and> fst (listar_tareas_por_prioridad True
        (s\<lparr>tareas := [(i, a\<lparr>prioridad := BAJA\<rparr>), (j, b\<lparr>prioridad := ALTA\<rparr>),
                      (k, c\<lparr>prioridad := MEDIA\<rparr>)]\<rparr>))
       = [a\<lparr>prioridad := BAJA\<rparr>, c\<lparr>prioridad := MEDIA\<rparr>, b\<lparr>prioridad := ALTA\<rparr>]
   \<and> fst (listar_tareas_por_prioridad False
        (s\<lparr>tareas := [(i, a\<lparr>prioridad := BAJA\<rparr>), (j, b\<lparr>prioridad := ALTA\<rparr>),
                      (k, c\<lparr>prioridad := MEDIA\<rparr>)]\<rparr>))
       = [b\<lparr>prioridad := ALTA\<rparr>, c\<lparr>prioridad := MEDIA\<rparr>, a\<lparr>prioridad := BAJA\<rparr>]
   \<and> tareas (snd (listar_tareas_por_prioridad asc s)) = tareas s
   \<and> siguiente_id (snd (listar_tareas_por_prioridad asc s)) = siguiente_id s"
  unfolding listar_prioridad_fst listar_prioridad_snd
  by (simp add: sorted_py_asc sorted_py_desc) (simp add: sorted_py_def)

lemma listar_vencimiento_fst:
  "fst (listar_tareas_por_vencimiento s)
     = sorted_py fecha_vencimiento False
         (filter (\<lambda>tarea. estado tarea \<noteq> COMPLETADA) (map snd (tareas s)))"
  by (simp add: listar_tareas_por_vencimiento_def Timer_def Let_def)

lemma listar_vencimiento_snd:
  "snd (listar_tareas_por_vencimiento s) = log_action ''Listar tareas por vencimiento'' s"
  by (simp add: listar_tareas_por_vencimiento_def Timer_def Let_def)

text \<open>
  C7. \<open>listar_tareas_por_vencimiento\<close> returns exactly the stored records whose status is
  not completada, ordered by due date ascending. Records due at T+1h (pendiente), T+2h
  (completada) and T+3h (en progreso), T in microseconds, come back as the first and the
  third. The dictionary and the counter are not changed.
\<close>

theorem listar_tareas_por_vencimiento_ordenada:
  "mset (fst (listar_tareas_por_vencimiento s))
     = mset (filter (\<lambda>tarea. estado tarea \<noteq> COMPLETADA) (map snd (tareas s)))
   \<and> sorted (map fecha_vencimiento (fst (listar_tareas_por_vencimiento s)))
   \<and> fst (listar_tareas_por_vencimiento
        (s\<lparr>tareas := [(i, a\<lparr>estado := PENDIENTE, fecha_vencimiento := T + 3600000000\<rparr>),
                      (j, b\<lparr>estado := COMPLETADA, fecha_vencimiento := T + 7200000000\<rparr>),
                      (k, c\<lparr>estado := EN_PROGRESO, fecha_vencimiento := T + 10800000000\<rparr>)]\<rparr>))
       = [a\<lparr>estado := PENDIENTE, fecha_vencimiento := T + 3600000000\<rparr>,
          c\<lparr>estado := EN_PROGRESO, fecha_vencimiento := T + 10800000000\<rparr>]
   \<and> tareas (snd (listar_tareas_por_vencimiento s)) = tareas s
   \<and> siguiente_id (snd (listar_tareas_por_vencimiento s)) = siguiente_id s"
  unfolding listar_vencimiento_fst listar_vencimiento_snd
  by (simp add: sorted_py_asc) (simp add: sorted_py_def)


section \<open>Loading and saving\<close>

lemma cargar_tarea_casos:
  "cargar_tarea now kw s =
     (case Tarea_init now kw of
        Inr t \<Rightarrow> Inr (s\<lparr>tareas := insertar (tareas s) t\<rparr>)
      | Inl ex \<Rightarrow>
          (case ex of
             ValidationError e \<Rightarrow> Inr (log_error (Error_al_cargar_tarea e) s)
           | _ \<Rightarrow> Inl ex))"
  by (simp add: cargar_tarea_def insertar_def split: sum.splits excepcion.splits)

lemma cargar_tarea_Inr:
  assumes "cargar_tarea now kw s = Inr s'"
  shows "tareas s' = (case Tarea_init now kw of Inr t \<Rightarrow> insertar (tareas s) t | Inl e \<Rightarrow> tareas s)"
    and "siguiente_id s' = siguiente_id s" and "archivo s' = archivo s"
    and "disco_error s' = disco_error s"
  using assms unfolding cargar_tarea_casos
  by (auto split: sum.splits excepcion.splits)

lemma cargar_tarea_sin_TypeError:
  assumes "Tarea_init now kw \<noteq> Inl TypeError"
  shows "\<exists>s'. cargar_tarea now kw s = Inr s'
     \<and> tareas s' = (case Tarea_init now kw of Inr t \<Rightarrow> insertar (tareas s) t | Inl e \<Rightarrow> tareas s)"
proof (cases "Tarea_init now kw")
  case (Inl ex)
  with assms Tarea_init_excepciones[OF Inl] obtain es where "ex = ValidationError es"
    by auto
  with Inl show ?thesis by (simp add: cargar_tarea_casos)
next
  case (Inr t)
  then show ?thesis by (simp add: cargar_tarea_casos)
qed

lemma cargar_lista_siguiente_id [simp]:
  "siguiente_id (snd (cargar_lista fromiso now ds s)) = siguiente_id s"
proof (induction ds arbitrary: s)
  case Nil
  then show ?case by simp
next
  case (Cons d ds)
  show ?case
  proof (cases "convertir_fecha fromiso d")
    case (Inl ex)
    then show ?thesis by simp
  next
    case (Inr kw)
    show ?thesis
    proof (cases "cargar_tarea now kw s")
      case Inl
      then show ?thesis by (simp add: Inr)
    next
      case r: (Inr s')
      from Cons.IH[of s'] cargar_tarea_Inr(2)[OF r] show ?thesis by (simp add: Inr r)
    qed
  qed
qed

lemma cargar_lista_convertidas:
  "map (convertir_fecha fromiso) ds = map Inr kws \<Longrightarrow>
   \<forall>kw \<in> set kws. Tarea_init now kw \<noteq> Inl TypeError \<Longrightarrow>
   fst (cargar_lista fromiso now ds s) = Inr ()
   \<and> tareas (snd (cargar_lista fromiso now ds s))
       = foldl insertar (tareas s) (exitos (map (Tarea_init now) kws))"
proof (induction ds arbitrary: kws s)
  case Nil
  then show ?case by simp
next
  case (Cons d ds)
  from Cons.prems(1) obtain kw rest where k: "kws = kw # rest"
      "convertir_fecha fromiso d = Inr kw" "map (convertir_fecha fromiso) ds = map Inr rest"
    by (cases kws) auto
  from Cons.prems(2) k(1) have t: "Tarea_init now kw \<noteq> Inl TypeError"
    and r: "\<forall>kw \<in> set rest. Tarea_init now kw \<noteq> Inl TypeError"
    by simp_all
  from cargar_tarea_sin_TypeError[OF t, of s] obtain s' where s': "cargar_tarea now kw s = Inr s'"
    "tareas s' = (case Tarea_init now kw of Inr t \<Rightarrow> insertar (tareas s) t | Inl e \<Rightarrow> tareas s)"
    by blast
  have e: "foldl insertar (tareas s) (exitos (map (Tarea_init now) kws))
      = foldl insertar (tareas s') (exitos (map (Tarea_init now) rest))"
    unfolding k(1) s'(2) by (cases "Tarea_init now kw") simp_all
  from Cons.IH[OF k(3) r, of s'] show ?case
    unfolding e by (simp add: k(2) s'(1))
qed

lemma cargar_tareas_siguiente_id:
  assumes "archivo s = Some (Documento datos)"
  shows "siguiente_id (cargar_tareas fromiso now s)
           = (case doc_siguiente_id datos of
                None \<Rightarrow> siguiente_id s
              | Some n \<Rightarrow> if n \<noteq> 0 then n else siguiente_id s)"
proof -
  define s1 where "s1 = (case doc_siguiente_id datos of None \<Rightarrow> s
                     | Some n \<Rightarrow> if n \<noteq> 0 then s\<lparr>siguiente_id := n\<rparr> else s)"
  have s1: "siguiente_id s1 = (case doc_siguiente_id datos of
                None \<Rightarrow> siguiente_id s
              | Some n \<Rightarrow> if n \<noteq> 0 then n else siguiente_id s)"
    by (simp add: s1_def split: option.splits)
  have "siguiente_id (cargar_tareas fromiso now s) = siguiente_id s1"
  proof (cases "doc_tareas datos")
    case None
    then show ?thesis using assms by (simp add: cargar_tareas_def s1_def[symmetric])
  next
    case (Some ds)
    have l: "siguiente_id (snd (cargar_lista fromiso now ds s1)) = siguiente_id s1"
      by simp
    show ?thesis using assms Some l
      by (cases "cargar_lista fromiso now ds s1"; cases "fst (cargar_lista fromiso now ds s1)")
         (simp_all add: cargar_tareas_def s1_def[symmetric] registros)
  qed
  with s1 show ?thesis by simp
qed

lemma cargar_tareas_documento:
  assumes "archivo s = Some (Documento datos)" and "doc_tareas datos = Some ds"
    and "map (convertir_fecha fromiso) ds = map Inr kws"
    and "\<forall>kw \<in> set kws. Tarea_init now kw \<noteq> Inl TypeError"
  shows "tareas (cargar_tareas fromiso now s)
           = foldl insertar (tareas s) (exitos (map (Tarea_init now) kws))"
proof -
  define s1 where "s1 = (case doc_siguiente_id datos of None \<Rightarrow> s
                     | Some n \<Rightarrow> if n \<noteq> 0 then s\<lparr>siguiente_id := n\<rparr> else s)"
  have s1: "tareas s1 = tareas s"
    by (simp add: s1_def split: option.splits)
  note l = cargar_lista_convertidas[OF assms(3,4), of s1]
  have c: "cargar_tareas fromiso now s =
      (if ds = [] then s1 else snd (cargar_lista fromiso now ds s1))"
    using assms(1,2) l
    by (cases "cargar_lista fromiso now ds s1") (simp add: cargar_tareas_def s1_def Let_def)
  have e: "ds = [] \<Longrightarrow> kws = []" using assms(3) by simp
  show ?thesis unfolding c using e l by (simp add: s1)
qed

lemma set_update_subset: "set (AList.update k v al) \<subseteq> insert (k, v) (set al)"
  by (induction al) auto

lemma Tarea_init_nueva:
  assumes "Tarea_init now kw = Inr t"
  shows "d_id kw = Some (tarea_id t)" and "titulo_ok t" and "now \<le> fecha_vencimiento t"
proof -
  note f = Tarea_init_Inr[OF assms]
  from f show "d_id kw = Some (tarea_id t)" by (cases "d_id kw") simp_all
  from f show "titulo_ok t"
    by (cases "d_titulo kw") (auto simp add: titulo_ok_def split: if_splits)
  from f have "campo_fecha_vencimiento now (d_fecha_vencimiento kw) = Some (Inr (fecha_vencimiento t))"
    by simp
  then show "now \<le> fecha_vencimiento t"
  proof (cases "d_fecha_vencimiento kw")
    case None
    assume "campo_fecha_vencimiento now (d_fecha_vencimiento kw) = Some (Inr (fecha_vencimiento t))"
    with None show ?thesis by simp
  next
    case (Some v)
    assume "campo_fecha_vencimiento now (d_fecha_vencimiento kw) = Some (Inr (fecha_vencimiento t))"
    with Some show ?thesis by (cases v) (auto split: if_splits)
  qed
qed

lemma cargar_tarea_entradas:
  assumes "list_all (entrada_ok now) (tareas s)" and "cargar_tarea now kw s = Inr s'"
  shows "list_all (entrada_ok now) (tareas s')"
proof (cases "Tarea_init now kw")
  case (Inl e)
  with assms(1) cargar_tarea_Inr(1)[OF assms(2)] show ?thesis by simp
next
  case (Inr t)
  have "entrada_ok now (tarea_id t, t)"
    using Tarea_init_nueva[OF Inr] by (simp add: entrada_ok_def)
  with assms(1) set_update_subset[of "tarea_id t" t "tareas s"] show ?thesis
    by (auto simp add: cargar_tarea_Inr(1)[OF assms(2)] Inr insertar_def list_all_iff)
qed

lemma cargar_tarea_distinct:
  assumes "distinct (map fst (tareas s))" and "cargar_tarea now kw s = Inr s'"
  shows "distinct (map fst (tareas s'))"
  using assms(1) unfolding cargar_tarea_Inr(1)[OF assms(2)]
  by (cases "Tarea_init now kw") (simp_all add: insertar_def distinct_update)

lemma cargar_lista_entradas:
  "list_all (entrada_ok now) (tareas s) \<Longrightarrow>
   list_all (entrada_ok now) (tareas (snd (cargar_lista fromiso now ds s)))"
proof (induction ds arbitrary: s)
  case Nil
  then show ?case by simp
next
  case (Cons d ds)
  show ?case
  proof (cases "convertir_fecha fromiso d")
    case (Inl ex)
    with Cons.prems show ?thesis by simp
  next
    case (Inr kw)
    show ?thesis
    proof (cases "cargar_tarea now kw s")
      case Inl
      with Cons.prems show ?thesis by (simp add: Inr)
    next
      case r: (Inr s')
      from Cons.IH[OF cargar_tarea_entradas[OF Cons.prems r]] show ?thesis
        by (simp add: Inr r)
    qed
  qed
qed

lemma cargar_lista_distinct:
  "distinct (map fst (tareas s)) \<Longrightarrow>
   distinct (map fst (tareas (snd (cargar_lista fromiso now ds s))))"
proof (induction ds arbitrary: s)
  case Nil
  then show ?case by simp
next
  case (Cons d ds)
  show ?case
  proof (cases "convertir_fecha fromiso d")
    case (Inl ex)
    with Cons.prems show ?thesis by simp
  next
    case (Inr kw)
    show ?thesis
    proof (cases "cargar_tarea now kw s")
      case Inl
      with Cons.prems show ?thesis by (simp add: Inr)
    next
      case r: (Inr s')
      from Cons.IH[OF cargar_tarea_distinct[OF Cons.prems r]] show ?thesis
        by (simp add: Inr r)
    qed
  qed
qed


lemma cargar_tareas_tareas:
  "tareas (cargar_tareas fromiso now s) = tareas s
   \<or> (\<exists>ds s1. tareas s1 = tareas s
        \<and> tareas (cargar_tareas fromiso now s) = tareas (snd (cargar_lista fromiso now ds s1)))"
proof (cases "archivo s")
  case None
  then show ?thesis by (simp add: cargar_tareas_def)
next
  case (Some c)
  show ?thesis
  proof (cases c)
    case (Ilegible e)
    then show ?thesis using Some by (simp add: cargar_tareas_def registros)
  next
    case (Documento datos)
    define s1 where "s1 = (case doc_siguiente_id datos of None \<Rightarrow> s
                     | Some n \<Rightarrow> if n \<noteq> 0 then s\<lparr>siguiente_id := n\<rparr> else s)"
    have s1: "tareas s1 = tareas s" by (simp add: s1_def split: option.splits)
    show ?thesis
    proof (cases "doc_tareas datos")
      case None
      then show ?thesis using Some Documento s1
        by (simp add: cargar_tareas_def s1_def[symmetric])
    next
      case ds: (Some ds)
      show ?thesis
      proof (cases "ds = []")
        case True
        then show ?thesis using Some Documento s1 ds
          by (simp add: cargar_tareas_def s1_def[symmetric])
      next
        case False
        have "tareas (cargar_tareas fromiso now s) = tareas (snd (cargar_lista fromiso now ds s1))"
          using Some Documento ds False
          by (cases "cargar_lista fromiso now ds s1"; cases "fst (cargar_lista fromiso now ds s1)")
             (simp_all add: cargar_tareas_def s1_def[symmetric] registros)
        with s1 show ?thesis by blast
      qed
    qed
  qed
qed

lemma cargar_tareas_entradas:
  assumes "list_all (entrada_ok now) (tareas s)"
  shows "list_all (entrada_ok now) (tareas (cargar_tareas fromiso now s))"
  using cargar_tareas_tareas[of fromiso now s] assms cargar_lista_entradas
  by (metis (no_types, lifting))

lemma cargar_tareas_distinct:
  assumes "distinct (map fst (tareas s))"
  shows "distinct (map fst (tareas (cargar_tareas fromiso now s)))"
  using cargar_tareas_tareas[of fromiso now s] assms cargar_lista_distinct
  by (metis (no_types, lifting))

lemma init_entradas:
  "list_all (entrada_ok now) (tareas (TareaService_init fromiso now arch disco))"
  unfolding TareaService_init_def by (rule cargar_tareas_entradas) simp

lemma init_registro_ok: "registro_ok (TareaService_init fromiso now arch disco)"
proof -
  have d: "distinct (map fst (tareas (TareaService_init fromiso now arch disco)))"
    unfolding TareaService_init_def by (rule cargar_tareas_distinct) simp
  from init_entradas[of now fromiso arch disco] d show ?thesis
    by (auto simp add: registro_ok_def list_all_iff entrada_ok_def)
qed

lemma Tarea_init_Tarea_dict:
  "titulo_ok t \<Longrightarrow>
   Tarea_init now (Tarea_dict t) =
     (if fecha_vencimiento t < now then Inl (ValidationError [Fecha_en_el_pasado]) else Inr t)"
  by (simp add: Tarea_init_def Tarea_dict_def titulo_ok_def Let_def)

lemma Tarea_init_Tarea_dict_sin_TypeError: "Tarea_init now (Tarea_dict t) \<noteq> Inl TypeError"
  by (simp add: Tarea_init_TypeError Tarea_dict_def)

lemma convertir_serializable:
  "fromiso (isof (fecha_vencimiento t)) = Some (Naive (fecha_vencimiento t)) \<Longrightarrow>
   convertir_fecha fromiso (serializable isof t) = Inr (Tarea_dict t)"
  by (simp add: convertir_fecha_def serializable_def Tarea_dict_def)

lemma exitos_Tarea_dict:
  "list_all titulo_ok ts \<Longrightarrow>
   exitos (map (Tarea_init now) (map Tarea_dict ts)) = filter (\<lambda>t. now \<le> fecha_vencimiento t) ts"
  by (induction ts) (simp_all add: Tarea_init_Tarea_dict not_less)

lemma update_nueva: "k \<notin> fst ` set al \<Longrightarrow> AList.update k v al = al @ [(k, v)]"
  by (induction al) auto

lemma foldl_insertar_nuevas:
  "distinct (map tarea_id ts) \<Longrightarrow> tarea_id ` set ts \<inter> fst ` set al = {} \<Longrightarrow>
   foldl insertar al ts = al @ map (\<lambda>t. (tarea_id t, t)) ts"
proof (induction ts arbitrary: al)
  case Nil
  then show ?case by simp
next
  case (Cons t ts)
  have n: "tarea_id t \<notin> fst ` set al" using Cons.prems(2) by auto
  have i: "insertar al t = al @ [(tarea_id t, t)]"
    unfolding insertar_def using n by (rule update_nueva)
  have d: "distinct (map tarea_id ts)" using Cons.prems(1) by simp
  have e: "tarea_id ` set ts \<inter> fst ` set (al @ [(tarea_id t, t)]) = {}"
    using Cons.prems by auto
  show ?case using Cons.IH[OF d e] by (simp add: i)
qed

lemma entradas_de_valores:
  "list_all (\<lambda>(k, t). tarea_id t = k \<and> Q t) al \<Longrightarrow>
   map (\<lambda>t. (tarea_id t, t)) (filter P (map snd al)) = filter (\<lambda>(k, t). P t) al"
  by (induction al) auto

lemma recarga:
  assumes ok: "registro_ok s" and disco: "disco_error s = None"
    and iso: "\<forall>t \<in> snd ` set (tareas s).
                fromiso (isof (fecha_vencimiento t)) = Some (Naive (fecha_vencimiento t))"
  shows "tareas (TareaService_init fromiso now (archivo (guardar_tareas isof s)) d)
           = filter (\<lambda>(k, t). now \<le> fecha_vencimiento t) (tareas s)"
proof -
  let ?ts = "map snd (tareas s)"
  let ?ds = "map (serializable isof) ?ts"
  let ?datos = "\<lparr>doc_siguiente_id = Some (siguiente_id s), doc_tareas = Some ?ds\<rparr>"
  let ?s0 = "\<lparr>tareas = [], siguiente_id = 1, archivo = Some (Documento ?datos),
              disco_error = d, traza = []\<rparr>"
  have a: "archivo (guardar_tareas isof s) = Some (Documento ?datos)"
    using disco by (simp add: guardar_tareas_archivo)
  have c: "map (convertir_fecha fromiso) ?ds = map Inr (map Tarea_dict ?ts)"
    using iso by (simp add: convertir_serializable)
  have t: "list_all titulo_ok ?ts"
    using ok by (auto simp add: registro_ok_def list_all_iff)
  have "tareas (cargar_tareas fromiso now ?s0)
          = foldl insertar (tareas ?s0) (exitos (map (Tarea_init now) (map Tarea_dict ?ts)))"
  proof (rule cargar_tareas_documento[where datos = ?datos, OF _ _ c])
    show "archivo ?s0 = Some (Documento ?datos)" by simp
    show "doc_tareas ?datos = Some ?ds" by simp
    show "\<forall>kw \<in> set (map Tarea_dict ?ts). Tarea_init now kw \<noteq> Inl TypeError"
      by (simp add: Tarea_init_Tarea_dict_sin_TypeError)
  qed
  also have "\<dots> = foldl insertar [] (filter (\<lambda>t. now \<le> fecha_vencimiento t) ?ts)"
    unfolding exitos_Tarea_dict[OF t] by simp
  also have "\<dots> = map (\<lambda>t. (tarea_id t, t)) (filter (\<lambda>t. now \<le> fecha_vencimiento t) ?ts)"
  proof -
    have k: "map tarea_id ?ts = map fst (tareas s)"
      using ok by (auto simp add: registro_ok_def list_all_iff)
    have "distinct (map tarea_id ?ts)" unfolding k using ok by (simp add: registro_ok_def)
    then have "distinct (map tarea_id (filter (\<lambda>t. now \<le> fecha_vencimiento t) ?ts))"
      by (rule distinct_map_filter)
    then show ?thesis using foldl_insertar_nuevas[of _ "[]"] by simp
  qed
  also have "\<dots> = filter (\<lambda>(k, t). now \<le> fecha_vencimiento t) (tareas s)"
    using ok by (intro entradas_de_valores[where Q = titulo_ok]) (simp add: registro_ok_def)
  finally show ?thesis by (simp add: TareaService_init_def a)
qed


text \<open>
  C10. A record whose due date is earlier than the clock at the load is not among the
  records of the service loaded from the saved snapshot, because \<open>Tarea(...)\<close> runs
  \<open>fecha_valida\<close> again. For a well-formed registry, a writable file and due-date texts
  that parse back, the loaded dictionary is exactly the entries whose due date has not
  passed.
\<close>

theorem cargar_tareas_excluye_vencidas:
  "(fecha_vencimiento t < now \<longrightarrow>
      t \<notin> snd ` set (tareas (TareaService_init fromiso now (archivo (guardar_tareas isof s)) d)))
   \<and> (registro_ok s \<and> disco_error s = None
      \<and> (\<forall>t \<in> snd ` set (tareas s).
            fromiso (isof (fecha_vencimiento t)) = Some (Naive (fecha_vencimiento t)))
      \<longrightarrow> tareas (TareaService_init fromiso now (archivo (guardar_tareas isof s)) d)
            = filter (\<lambda>(k, t). \<not> fecha_vencimiento t < now) (tareas s))"
proof -
  have a: "t \<notin> snd ` set (tareas (TareaService_init fromiso now (archivo (guardar_tareas isof s)) d))"
    if "fecha_vencimiento t < now"
    using that init_entradas[of now fromiso "archivo (guardar_tareas isof s)" d]
    by (auto simp add: list_all_iff entrada_ok_def)
  have b: "tareas (TareaService_init fromiso now (archivo (guardar_tareas isof s)) d)
            = filter (\<lambda>(k, t). \<not> fecha_vencimiento t < now) (tareas s)"
    if "registro_ok s" "disco_error s = None"
      "\<forall>t \<in> snd ` set (tareas s). fromiso (isof (fecha_vencimiento t)) = Some (Naive (fecha_vencimiento t))"
    using recarga[OF that, of now d] by (simp add: not_less)
  from a b show ?thesis by blast
qed


subsection \<open>Loading on examples\<close>

lemma strip_Informe': "strip ''Informe'' \<noteq> []"
  by (simp add: strip_Informe)

lemma titulo_ok_ej [simp]: "titulo_ok (tarea_ej i f)"
  by (simp add: titulo_ok_def tarea_ej_def strip_Informe)

lemma fecha_ej [simp]: "fecha_vencimiento (tarea_ej i f) = f" "tarea_id (tarea_ej i f) = i"
  by (simp_all add: tarea_ej_def)

lemma ida_y_vuelta_ej [simp]:
  "fromisoformat_ej (isoformat_ej 5000000) = Some (Naive 5000000)"
  "fromisoformat_ej (isoformat_ej 20000000) = Some (Naive 20000000)"
  "fromisoformat_ej (isoformat_ej 30000000) = Some (Naive 30000000)"
  by (simp_all add: fromisoformat_ej_def isoformat_ej_def)

lemma fromisoformat_pronto [simp]: "fromisoformat_ej ''pronto'' = None"
  by (simp add: fromisoformat_ej_def)

lemma fromisoformat_con_zona [simp]:
  "fromisoformat_ej ''1970-01-03T00:00:20+00:00'' = Some (Aware 172820000000 0)"
  by (simp add: fromisoformat_ej_def)

lemma convertir_sin_titulo:
  "fromisoformat_ej (isoformat_ej f) = Some (Naive f) \<Longrightarrow>
   convertir_fecha fromisoformat_ej (dict_sin_titulo i f)
     = Inr ((Tarea_dict (tarea_ej i f))\<lparr>d_titulo := Some ''   ''\<rparr>)"
  by (simp add: convertir_fecha_def dict_sin_titulo_def serializable_def Tarea_dict_def)

lemma convertir_fecha_ilegible:
  "convertir_fecha fromisoformat_ej (dict_fecha_ilegible i f) = Inl (ValueError ''pronto'')"
  by (simp add: convertir_fecha_def dict_fecha_ilegible_def serializable_def)

lemma convertir_fecha_con_zona:
  "convertir_fecha fromisoformat_ej (dict_fecha_con_zona i f)
     = Inr ((Tarea_dict (tarea_ej i f))\<lparr>d_fecha_vencimiento := Some (Aware 172820000000 0)\<rparr>)"
  by (simp add: convertir_fecha_def dict_fecha_con_zona_def serializable_def Tarea_dict_def)

lemma Tarea_init_sin_titulo:
  "Tarea_init now ((Tarea_dict (tarea_ej i f))\<lparr>d_titulo := Some ''   ''\<rparr>)
     = Inl (ValidationError (Titulo_vacio # (if f < now then [Fecha_en_el_pasado] else [])))"
  by (simp add: Tarea_init_def Tarea_dict_def tarea_ej_def strip_blancos Let_def
      PrioridadEnum_of_def EstadoEnum_of_def)

lemma Tarea_init_con_zona:
  "Tarea_init now ((Tarea_dict (tarea_ej i f))\<lparr>d_fecha_vencimiento := Some (Aware v off)\<rparr>)
     = Inl TypeError"
  by (simp add: Tarea_init_Aware)

text \<open>
  C2. The load does not skip only the failing record. A record that raises the
  \<open>ValidationError\<close> is skipped and logged, and the records after it are loaded: of a
  file with a valid record, one with a blank title and another valid one, the first and
  the third are loaded. But the conversion of the due-date text runs before the inner
  \<open>try\<close>, and the inner handler catches the \<open>ValidationError\<close> only. In a file whose first
  record has a blank title, whose second has a due-date text that is not a date and whose
  third is valid, the load ends at the second: the third is never loaded and the file-level
  handler logs and prints the parser's error. In a file whose first record is valid, whose
  second has a due-date text with an offset and whose third is valid, the load ends at
  the second with the \<open>TypeError\<close> of the comparison: the first stays, the third is never
  loaded.
\<close>

theorem cargar_tareas_termina_en_fecha_invalida:
  "Tarea_init 10000000 (Tarea_dict (tarea_ej 1 20000000)) = Inr (tarea_ej 1 20000000)
   \<and> Tarea_init 10000000 (Tarea_dict (tarea_ej 3 30000000)) = Inr (tarea_ej 3 30000000)
   \<and> convertir_fecha fromisoformat_ej (serializable isoformat_ej (tarea_ej 3 30000000))
       = Inr (Tarea_dict (tarea_ej 3 30000000))
   \<and> tareas (TareaService_init fromisoformat_ej 10000000
        (Some (documento_ej [serializable isoformat_ej (tarea_ej 1 20000000),
                             dict_sin_titulo 2 20000000,
                             serializable isoformat_ej (tarea_ej 3 30000000)])) None)
       = [(1, tarea_ej 1 20000000), (3, tarea_ej 3 30000000)]
   \<and> traza (TareaService_init fromisoformat_ej 10000000
        (Some (documento_ej [serializable isoformat_ej (tarea_ej 1 20000000),
                             dict_sin_titulo 2 20000000,
                             serializable isoformat_ej (tarea_ej 3 30000000)])) None)
       = [Log_error (Error_al_cargar_tarea [Titulo_vacio])]
   \<and> tareas (TareaService_init fromisoformat_ej 10000000
        (Some (documento_ej [dict_sin_titulo 1 20000000, dict_fecha_ilegible 2 20000000,
                             serializable isoformat_ej (tarea_ej 3 30000000)])) None) = []
   \<and> traza (TareaService_init fromisoformat_ej 10000000
        (Some (documento_ej [dict_sin_titulo 1 20000000, dict_fecha_ilegible 2 20000000,
                             serializable isoformat_ej (tarea_ej 3 30000000)])) None)
       = [Log_error (Error_al_cargar_tarea [Titulo_vacio]),
          Log_error (Error_al_cargar_tareas (ValueError ''pronto'')),
          Print (Error_al_cargar_tareas (ValueError ''pronto''))]
   \<and> tareas (TareaService_init fromisoformat_ej 10000000
        (Some (documento_ej [serializable isoformat_ej (tarea_ej 1 20000000),
                             dict_fecha_con_zona 2 20000000,
                             serializable isoformat_ej (tarea_ej 3 30000000)])) None)
       = [(1, tarea_ej 1 20000000)]
   \<and> traza (TareaService_init fromisoformat_ej 10000000
        (Some (documento_ej [serializable isoformat_ej (tarea_ej 1 20000000),
                             dict_fecha_con_zona 2 20000000,
                             serializable isoformat_ej (tarea_ej 3 30000000)])) None)
       = [Log_error (Error_al_cargar_tareas TypeError), Print (Error_al_cargar_tareas TypeError)]"
proof -
  note ev = Tarea_init_sin_titulo Tarea_init_con_zona convertir_sin_titulo
    convertir_fecha_ilegible convertir_fecha_con_zona convertir_serializable
    Tarea_init_Tarea_dict TareaService_init_def cargar_tareas_def documento_ej_def
    cargar_tarea_def registros
  let ?a = "TareaService_init fromisoformat_ej 10000000
        (Some (documento_ej [serializable isoformat_ej (tarea_ej 1 20000000),
                             dict_sin_titulo 2 20000000,
                             serializable isoformat_ej (tarea_ej 3 30000000)])) None"
  let ?b = "TareaService_init fromisoformat_ej 10000000
        (Some (documento_ej [dict_sin_titulo 1 20000000, dict_fecha_ilegible 2 20000000,
                             serializable isoformat_ej (tarea_ej 3 30000000)])) None"
  let ?c = "TareaService_init fromisoformat_ej 10000000
        (Some (documento_ej [serializable isoformat_ej (tarea_ej 1 20000000),
                             dict_fecha_con_zona 2 20000000,
                             serializable isoformat_ej (tarea_ej 3 30000000)])) None"
  have v: "Tarea_init 10000000 (Tarea_dict (tarea_ej 1 20000000)) = Inr (tarea_ej 1 20000000)"
    "Tarea_init 10000000 (Tarea_dict (tarea_ej 3 30000000)) = Inr (tarea_ej 3 30000000)"
    "convertir_fecha fromisoformat_ej (serializable isoformat_ej (tarea_ej 3 30000000))
       = Inr (Tarea_dict (tarea_ej 3 30000000))"
    by (simp_all add: Tarea_init_Tarea_dict convertir_serializable)
  have a: "tareas ?a = [(1, tarea_ej 1 20000000), (3, tarea_ej 3 30000000)]"
    "traza ?a = [Log_error (Error_al_cargar_tarea [Titulo_vacio])]"
    by (simp_all add: ev)
  have b: "tareas ?b = []"
    "traza ?b = [Log_error (Error_al_cargar_tarea [Titulo_vacio]),
          Log_error (Error_al_cargar_tareas (ValueError ''pronto'')),
          Print (Error_al_cargar_tareas (ValueError ''pronto''))]"
    by (simp_all add: ev)
  have c: "tareas ?c = [(1, tarea_ej 1 20000000)]"
    "traza ?c = [Log_error (Error_al_cargar_tareas TypeError),
          Print (Error_al_cargar_tareas TypeError)]"
    by (simp_all add: ev)
  from v a b c show ?thesis by simp
qed

subsection \<open>The round trip on examples\<close>

lemma kw_nueva_ej:
  "siguiente_id s = i \<Longrightarrow>
   kw_nueva s ''Informe'' ''Informe trimestral'' ALTA (Naive f) = Tarea_dict (tarea_ej i f)"
  by (simp add: kw_nueva_def Tarea_dict_def tarea_ej_def)

lemma servicio_vencido_campos:
  "tareas servicio_vencido = [(1, tarea_ej 1 5000000)]"
  "disco_error servicio_vencido = None"
  "siguiente_id servicio_vencido = 2"
  "archivo servicio_vencido
     = Some (Documento \<lparr>doc_siguiente_id = Some 2,
         doc_tareas = Some [serializable isoformat_ej (tarea_ej 1 5000000)]\<rparr>)"
  unfolding servicio_vencido_def agregar_tarea_casos servicio_nuevo
  by (simp_all add: MAX_TAREAS_def lower_alta PrioridadEnum_of_def kw_nueva_ej
      Tarea_init_Tarea_dict guardar_tareas_archivo)

lemma servicio_reiniciado_campos:
  "tareas servicio_reiniciado = []"
  "siguiente_id servicio_reiniciado = 2"
  unfolding servicio_reiniciado_def servicio_vencido_campos
  by (simp_all add: TareaService_init_def cargar_tareas_def cargar_tarea_def registros
      convertir_serializable Tarea_init_Tarea_dict)

lemma registro_ok_ej:
  "registro_ok (servicio_ej [(1, tarea_ej 1 20000000), (2, tarea_ej 2 30000000)])"
  "registro_ok (servicio_ej [(1, tarea_ej 1 5000000), (2, tarea_ej 2 20000000)])"
  by (simp_all add: registro_ok_def servicio_ej_def)



theorem cargar_tareas_excluye_vencidas_witness:
  "fecha_vencimiento (tarea_ej 1 5000000) < 10000000
   \<and> tarea_ej 1 5000000 \<notin> snd ` set (tareas (TareaService_init fromisoformat_ej 10000000
        (archivo (guardar_tareas isoformat_ej
           (servicio_ej [(1, tarea_ej 1 5000000), (2, tarea_ej 2 20000000)]))) None))
   \<and> registro_ok (servicio_ej [(1, tarea_ej 1 5000000), (2, tarea_ej 2 20000000)])
   \<and> tareas (TareaService_init fromisoformat_ej 10000000
        (archivo (guardar_tareas isoformat_ej
           (servicio_ej [(1, tarea_ej 1 5000000), (2, tarea_ej 2 20000000)]))) None)
       = [(2, tarea_ej 2 20000000)]"
proof -
  let ?s = "servicio_ej [(1, tarea_ej 1 5000000), (2, tarea_ej 2 20000000)]"
  have f: "fecha_vencimiento (tarea_ej 1 5000000) < 10000000" by simp
  have d: "disco_error ?s = None" by (simp add: servicio_ej_def)
  have h: "\<forall>t \<in> snd ` set (tareas ?s).
      fromisoformat_ej (isoformat_ej (fecha_vencimiento t)) = Some (Naive (fecha_vencimiento t))"
    by (simp add: servicio_ej_def)
  have t: "filter (\<lambda>(k, t). \<not> fecha_vencimiento t < 10000000) (tareas ?s) = [(2, tarea_ej 2 20000000)]"
    by (simp add: servicio_ej_def)
  from cargar_tareas_excluye_vencidas [of "tarea_ej 1 5000000" 10000000 fromisoformat_ej
      isoformat_ej ?s None] f registro_ok_ej(2) d h
  show ?thesis unfolding t by blast
qed

subsection \<open>A run of creations\<close>

lemma lower_ALTA: "lower ''ALTA'' = ''alta''"
  by code_simp

lemma agregar_tarea_Informe:
  assumes "length (tareas s) < MAX_TAREAS" and "PrioridadEnum_of (lower p) = Some ALTA"
    and "now \<le> f"
  shows "fst (agregar_tarea isof now ''Informe'' ''Informe trimestral'' p (Naive f) s)
           = Inr (tarea_ej (siguiente_id s) f)"
  unfolding agregar_tarea_casos using assms
  by (simp add: kw_nueva_ej Tarea_init_Tarea_dict)

lemma agregar_tarea_blancos:
  assumes "length (tareas s) < MAX_TAREAS" and "PrioridadEnum_of (lower p) = Some ALTA"
  shows "isl (fst (agregar_tarea isof now ''   '' d p (Naive f) s))"
  unfolding agregar_tarea_fst[OF assms(1)] using assms(2)
  by (simp add: Tarea_init_kw_nueva_Naive strip_blancos)

theorem agregar_tarea_ids_consecutivos_witness:
  "tareas (TareaService_init fromisoformat_ej 10000000 None None) = []
   \<and> siguiente_id (TareaService_init fromisoformat_ej 10000000 None None) = 1
   \<and> map tarea_id (exitos (fst (agregar_varias isoformat_ej llamadas_ej
        (TareaService_init fromisoformat_ej 10000000 None None)))) = [1, 2]
   \<and> map fst (tareas (snd (agregar_varias isoformat_ej llamadas_ej
        (TareaService_init fromisoformat_ej 10000000 None None)))) = [1, 2]
   \<and> siguiente_id (snd (agregar_varias isoformat_ej llamadas_ej
        (TareaService_init fromisoformat_ej 10000000 None None))) = 3"
proof -
  let ?s0 = "TareaService_init fromisoformat_ej 10000000 None None"
  let ?c1 = "agregar_tarea isoformat_ej 10000000 ''Informe'' ''Informe trimestral'' ''ALTA''
      (Naive 20000000) ?s0"
  let ?c2 = "agregar_tarea isoformat_ej 10000000 ''   '' ''Informe trimestral'' ''alta''
      (Naive 20000000) (snd ?c1)"
  let ?c3 = "agregar_tarea isoformat_ej 10000000 ''Informe'' ''Informe trimestral'' ''alta''
      (Naive 30000000) (snd ?c2)"
  have s0: "tareas ?s0 = []" "siguiente_id ?s0 = 1" by (simp_all add: servicio_nuevo)
  have p: "PrioridadEnum_of (lower ''ALTA'') = Some ALTA" "PrioridadEnum_of (lower ''alta'') = Some ALTA"
    by (simp_all add: lower_ALTA lower_alta PrioridadEnum_of_def)
  have r1: "fst ?c1 = Inr (tarea_ej 1 20000000)"
    using agregar_tarea_Informe[of ?s0 "''ALTA''" 10000000 20000000 isoformat_ej] p(1)
    by (simp add: s0 MAX_TAREAS_def)
  have s1: "tareas (snd ?c1) = [(1, tarea_ej 1 20000000)]" "siguiente_id (snd ?c1) = 2"
    using agregar_tarea_Inr[OF r1] by (simp_all add: s0)
  have r2: "isl (fst ?c2)"
    by (rule agregar_tarea_blancos) (simp_all add: s1 MAX_TAREAS_def p)
  then obtain m where m: "fst ?c2 = Inl m" by (cases "fst ?c2") auto
  have s2: "tareas (snd ?c2) = [(1, tarea_ej 1 20000000)]" "siguiente_id (snd ?c2) = 2"
    using agregar_tarea_falla[OF m] by (simp_all add: s1)
  have r3: "fst ?c3 = Inr (tarea_ej 2 30000000)"
    using agregar_tarea_Informe[of "snd ?c2" "''alta''" 10000000 30000000 isoformat_ej] p(2)
    by (simp add: s2 MAX_TAREAS_def)
  have e: "exitos (fst (agregar_varias isoformat_ej llamadas_ej ?s0))
      = [tarea_ej 1 20000000, tarea_ej 2 30000000]"
    unfolding llamadas_ej_def agregar_varias_Cons by (simp add: r1 m r3)
  from agregar_tarea_ids_consecutivos [OF s0(1), of isoformat_ej llamadas_ej] s0 show ?thesis
    unfolding e by simp
qed

text \<open>
  The claim as stated for every empty registry fails: the registry started again at 10
  seconds on the snapshot of the task due at 5 seconds has an empty dictionary and the
  counter 2 of the snapshot, and the first task it creates gets the id 2.
\<close>

theorem agregar_tarea_id_tras_recarga_counterexample:
  "tareas servicio_reiniciado = []
   \<and> siguiente_id servicio_reiniciado = 2
   \<and> map tarea_id (exitos (fst (agregar_varias isoformat_ej
        [(10000000, ''Informe'', ''Informe trimestral'', ''alta'', Naive 20000000)]
        servicio_reiniciado))) = [2]"
proof -
  have p: "PrioridadEnum_of (lower ''alta'') = Some ALTA"
    by (simp add: lower_alta PrioridadEnum_of_def)
  have r: "fst (agregar_tarea isoformat_ej 10000000 ''Informe'' ''Informe trimestral'' ''alta''
      (Naive 20000000) servicio_reiniciado) = Inr (tarea_ej 2 20000000)"
    using agregar_tarea_Informe[of servicio_reiniciado "''alta''" 10000000 20000000 isoformat_ej] p
    by (simp add: servicio_reiniciado_campos MAX_TAREAS_def)
  show ?thesis unfolding agregar_varias_Cons
    by (simp add: r servicio_reiniciado_campos)
qed


end
